theory Spec2Isabelle
  imports Main "HOL-Library.AList"
begin

section \<open>JavaScript values\<close>

text \<open>
  The runtime passes around values of TypeScript type \<open>unknown\<close>. They are modelled by
  \<open>jsval\<close>: the JSON values, plus \<open>Date\<close> as the rich type the serializer supports.
  A date is identified with its ISO string. Numbers are integers (floating point is not
  modelled). An object is the list of its own properties in property order; keys are
  meant to be distinct. A value that may be \<open>undefined\<close> has type \<open>jsval option\<close>.
\<close>

datatype jsval =
    JNull
  | JBool bool
  | JNum int
  | JStr string
  | JDate string
  | JArr "jsval list"
  | JObj "(string \<times> jsval) list"

text \<open>Values thrown by the code or by its collaborators.\<close>

datatype js_error =
    SyntaxError
  | TypeError
  | Error string
  | FetchError "jsval option" nat
  | Rejected jsval

text \<open>Truthiness, as tested by \<open>if (v)\<close>, \<open>!v\<close> and \<open>a && b\<close>.\<close>

fun js_truthy :: "jsval \<Rightarrow> bool" where
  "js_truthy JNull = False"
| "js_truthy (JBool b) = b"
| "js_truthy (JNum n) = (n \<noteq> 0)"
| "js_truthy (JStr s) = (s \<noteq> [])"
| "js_truthy (JDate s) = True"
| "js_truthy (JArr vs) = True"
| "js_truthy (JObj kvs) = True"

fun truthy :: "jsval option \<Rightarrow> bool" where
  "truthy None = False"
| "truthy (Some v) = js_truthy v"

text \<open>
  Property read \<open>v.k\<close>. Reading a property of \<open>null\<close> throws a TypeError. The source only
  reads the identifier keys \<open>data\<close>, \<open>meta\<close>, \<open>serialization\<close>, \<open>error\<close>, \<open>prisma\<close>,
  \<open>code\<close> and \<open>reason\<close>, none of which is an index or \<open>length\<close>, so arrays, strings and
  the other primitives answer \<open>undefined\<close>.
\<close>

fun get_prop :: "jsval \<Rightarrow> string \<Rightarrow> js_error + jsval option" where
  "get_prop JNull k = Inl TypeError"
| "get_prop (JObj kvs) k = Inr (map_of kvs k)"
| "get_prop v k = Inr None"

text \<open>Optional chaining \<open>v?.k\<close>: \<open>undefined\<close> when \<open>v\<close> is \<open>null\<close> or \<open>undefined\<close>.\<close>

fun opt_prop :: "jsval option \<Rightarrow> string \<Rightarrow> jsval option" where
  "opt_prop (Some (JObj kvs)) k = map_of kvs k"
| "opt_prop v k = None"

text \<open>Decimal rendering of an array index, for the keys of a spread array.\<close>

fun show_nat :: "nat \<Rightarrow> string" where
  "show_nat n =
     (if n < 10 then [''0123456789'' ! n]
      else show_nat (n div 10) @ [''0123456789'' ! (n mod 10)])"

declare show_nat.simps [simp del]

fun index_props :: "nat \<Rightarrow> jsval list \<Rightarrow> (string \<times> jsval) list" where
  "index_props i [] = []"
| "index_props i (v # vs) = (show_nat i, v) # index_props (Suc i) vs"

text \<open>
  Object spread \<open>{...v}\<close>: the own enumerable properties of \<open>v\<close>. An array spreads to its
  indices, a string to its characters, every other primitive to nothing.
\<close>

fun spread :: "jsval \<Rightarrow> (string \<times> jsval) list" where
  "spread (JObj kvs) = kvs"
| "spread (JArr vs) = index_props 0 vs"
| "spread (JStr s) = index_props 0 (map (\<lambda>c. JStr [c]) s)"
| "spread v = []"

text \<open>
  Deep equality of two values: objects are compared property by property, whatever the
  order of their properties.
\<close>

function (sequential) deep_equal :: "jsval \<Rightarrow> jsval \<Rightarrow> bool" where
  "deep_equal (JArr xs) (JArr ys) = list_all2 deep_equal xs ys"
| "deep_equal (JObj kvs) (JObj kvs') =
     (set (map fst kvs) = set (map fst kvs') \<and>
      (\<forall>k \<in> set (map fst kvs).
         (case map_of kvs k of
            None \<Rightarrow> False
          | Some v \<Rightarrow> (case map_of kvs' k of None \<Rightarrow> False | Some v' \<Rightarrow> deep_equal v v'))))"
| "deep_equal a b = (a = b)"
  by pat_completeness auto
termination
proof (relation "measure (\<lambda>(a, b). size a)")
  show "wf (measure (\<lambda>(a, b). size a))"
    by simp
next
  fix xs ys :: "jsval list" and z yb :: jsval
  assume "z \<in> set xs"
  then have "size z < size (JArr xs)"
    by (induction xs) auto
  then show "((z, yb), (JArr xs, JArr ys)) \<in> measure (\<lambda>(a, b). size a)"
    by simp
next
  fix kvs kvs' :: "(string \<times> jsval) list" and k :: string and v v' :: jsval
  assume "map_of kvs k = Some v"
  then have "(k, v) \<in> set kvs"
    by (rule map_of_SomeD)
  then have "size v < size (JObj kvs)"
    by (induction kvs) auto
  then show "((v, v'), (JObj kvs, JObj kvs')) \<in> measure (\<lambda>(a, b). size a)"
    by simp
qed

section \<open>JSON text\<close>

text \<open>
  A JSON text is modelled by the value it denotes: \<open>JSON.parse\<close> of the text that
  \<open>JSON.stringify\<close> wrote gives the value back, which is the contract of the two
  built-ins. Text that is not JSON is \<open>Malformed\<close>, and \<open>JSON.parse\<close> throws a
  SyntaxError on it. \<open>JSON.stringify\<close> writes a date as its ISO string.
\<close>

datatype json_text = JsonText jsval | Malformed

primrec to_json :: "jsval \<Rightarrow> jsval" where
  "to_json JNull = JNull"
| "to_json (JBool b) = JBool b"
| "to_json (JNum n) = JNum n"
| "to_json (JStr s) = JStr s"
| "to_json (JDate s) = JStr s"
| "to_json (JArr vs) = JArr (map to_json vs)"
| "to_json (JObj kvs) = JObj (map (map_prod id to_json) kvs)"

definition JSON_stringify :: "jsval \<Rightarrow> json_text" where
  "JSON_stringify v = JsonText (to_json v)"

fun JSON_parse :: "json_text \<Rightarrow> js_error + jsval" where
  "JSON_parse (JsonText v) = Inr v"
| "JSON_parse Malformed = Inl SyntaxError"

text \<open>The values JSON represents natively: those without a date.\<close>

primrec is_json :: "jsval \<Rightarrow> bool" where
  "is_json JNull = True"
| "is_json (JBool b) = True"
| "is_json (JNum n) = True"
| "is_json (JStr s) = True"
| "is_json (JDate s) = False"
| "is_json (JArr vs) = list_all is_json vs"
| "is_json (JObj kvs) = list_all (pred_prod (\<lambda>k. True) is_json) kvs"

section \<open>Serialization of rich values\<close>

text \<open>
  Modelled from the spec: \<open>serialize\<close> and \<open>deserialize\<close> of the runtime's browser
  package, which the source imports; their code lies outside the module verified here.
  The source functions below take them as parameters. The spec describes them as the wire
  serialization of rich value types into JSON, with serialization metadata for the values
  JSON cannot natively represent (dates). The serializer modelled here returns the JSON
  stand-in of a value (a date becomes its ISO string) and the metadata: the paths at
  which a date stood, absent when there is none. A path is a list of object keys and
  array indices. Its deserializer puts the dates back at the paths the metadata lists; it
  never throws, where a deserializer in general may.
\<close>

fun date_paths :: "jsval \<Rightarrow> jsval list list"
  and date_paths_elems :: "nat \<Rightarrow> jsval list \<Rightarrow> jsval list list"
  and date_paths_props :: "(string \<times> jsval) list \<Rightarrow> jsval list list" where
  "date_paths (JDate s) = [[]]"
| "date_paths (JArr vs) = date_paths_elems 0 vs"
| "date_paths (JObj kvs) = date_paths_props kvs"
| "date_paths v = []"
| "date_paths_elems i [] = []"
| "date_paths_elems i (v # vs) =
     map ((#) (JNum (int i))) (date_paths v) @ date_paths_elems (Suc i) vs"
| "date_paths_props [] = []"
| "date_paths_props ((k, v) # kvs) =
     map ((#) (JStr k)) (date_paths v) @ date_paths_props kvs"

definition serialize_dates :: "jsval \<Rightarrow> jsval \<times> jsval option" where
  "serialize_dates v =
     (to_json v,
      if date_paths v = [] then None
      else Some (JObj [(''dates'', JArr (map JArr (date_paths v)))]))"

fun restore_date :: "jsval list \<Rightarrow> jsval \<Rightarrow> jsval" where
  "restore_date [] (JStr s) = JDate s"
| "restore_date (JStr k # p) (JObj kvs) =
     JObj (map (\<lambda>kv. if fst kv = k then (fst kv, restore_date p (snd kv)) else kv) kvs)"
| "restore_date (JNum i # p) (JArr vs) =
     (if 0 \<le> i \<and> nat i < length vs
      then JArr (vs[nat i := restore_date p (vs ! nat i)])
      else JArr vs)"
| "restore_date p v = v"

fun path_of :: "jsval \<Rightarrow> jsval list list" where
  "path_of (JArr p) = [p]"
| "path_of v = []"

fun meta_paths :: "jsval \<Rightarrow> jsval list list" where
  "meta_paths (JObj kvs) =
     (case map_of kvs ''dates'' of
        Some (JArr ps) \<Rightarrow> concat (map path_of ps)
      | _ \<Rightarrow> [])"
| "meta_paths v = []"

definition deserialize_dates :: "jsval \<Rightarrow> jsval \<Rightarrow> js_error + jsval" where
  "deserialize_dates v meta = Inr (fold restore_date (meta_paths meta) v)"

text \<open>Well-formed values: the keys of every object are distinct.\<close>

primrec wf_value :: "jsval \<Rightarrow> bool" where
  "wf_value JNull = True"
| "wf_value (JBool b) = True"
| "wf_value (JNum n) = True"
| "wf_value (JStr s) = True"
| "wf_value (JDate s) = True"
| "wf_value (JArr vs) = list_all wf_value vs"
| "wf_value (JObj kvs) = (distinct (map fst kvs) \<and> list_all (pred_prod (\<lambda>k. True) wf_value) kvs)"

section \<open>Requests, responses and imported functions\<close>

record req_url =
  urlPath :: string
  urlQ :: "json_text option"
  urlMeta :: "json_text option"

datatype http_method = POST | PUT | DELETE

record request_init =
  reqMethod :: http_method
  reqHeaders :: "(string \<times> string) list"
  reqBody :: "json_text option"

record response =
  resStatus :: nat
  resText :: json_text

text \<open>\<open>res.ok\<close> of a fetch response: the status is in the range 200 to 299.\<close>

definition res_ok :: "response \<Rightarrow> bool" where
  "res_ok res = (200 \<le> resStatus res \<and> resStatus res \<le> 299)"

type_synonym fetch_fn = "req_url \<Rightarrow> request_init option \<Rightarrow> js_error + response"

text \<open>
  The functions the source imports from the runtime packages and from cross-fetch, taken
  as parameters. \<open>'meta\<close> is the type of the model metadata. \<open>deserialize\<close> may throw, as
  may the asynchronous functions; \<open>serialize\<close> and \<open>getReadModels\<close> return.
\<close>

record 'meta runtime =
  serialize :: "jsval \<Rightarrow> jsval \<times> jsval option"
  deserialize :: "jsval \<Rightarrow> jsval \<Rightarrow> js_error + jsval"
  crossFetch :: fetch_fn
  getMutatedModels :: "string \<Rightarrow> string \<Rightarrow> jsval option \<Rightarrow> 'meta \<Rightarrow> js_error + string list"
  getReadModels :: "string \<Rightarrow> 'meta \<Rightarrow> jsval \<Rightarrow> string list"
  applyMutation ::
    "string \<Rightarrow> string \<Rightarrow> jsval option \<Rightarrow> string \<Rightarrow> string \<Rightarrow> jsval option \<Rightarrow> 'meta \<Rightarrow> bool
       \<Rightarrow> js_error + jsval option"

section \<open>marshal and unmarshal\<close>

text \<open>
  \<open>marshal\<close> writes a request body: the serialized data, with the serialization metadata
  spliced in as a sibling property \<open>meta\<close> when there is any.
\<close>

definition marshal :: "'meta runtime \<Rightarrow> jsval \<Rightarrow> json_text" where
  "marshal rt v =
     (case serialize rt v of (data, meta) \<Rightarrow>
        if truthy meta
        then JSON_stringify
               (JObj (AList.update ''meta'' (JObj [(''serialization'', the meta)]) (spread data)))
        else JSON_stringify data)"

text \<open>
  \<open>unmarshal\<close> reads a response body: when it has a truthy \<open>data\<close> and a truthy
  \<open>meta.serialization\<close>, the data is deserialized with that metadata. What
  \<open>JSON.parse\<close> or \<open>deserialize\<close> throws leaves \<open>unmarshal\<close> as it is.
\<close>

definition unmarshal :: "'meta runtime \<Rightarrow> json_text \<Rightarrow> js_error + jsval" where
  "unmarshal rt t =
     (case JSON_parse t of
        Inl e \<Rightarrow> Inl e
      | Inr parsed \<Rightarrow>
          (case get_prop parsed ''data'' of
             Inl e \<Rightarrow> Inl e
           | Inr pdata \<Rightarrow>
               (case get_prop parsed ''meta'' of
                  Inl e \<Rightarrow> Inl e
                | Inr pmeta \<Rightarrow>
                    if truthy pdata \<and> truthy (opt_prop pmeta ''serialization'')
                    then
                      (case deserialize rt (the pdata) (the (opt_prop pmeta ''serialization'')) of
                         Inl e \<Rightarrow> Inl e
                       | Inr deserializedData \<Rightarrow>
                           Inr (JObj (AList.update ''data'' deserializedData (spread parsed))))
                    else Inr parsed)))"

text \<open>The round trip of the claim: marshal, then unmarshal, gives a deep-equal value.\<close>

definition round_trips :: "'meta runtime \<Rightarrow> jsval \<Rightarrow> bool" where
  "round_trips rt x =
     (case unmarshal rt (marshal rt x) of Inl e \<Rightarrow> False | Inr y \<Rightarrow> deep_equal y x)"

text \<open>The shape of a response envelope: a truthy \<open>data\<close> and a truthy \<open>meta.serialization\<close>.\<close>

definition is_envelope :: "jsval \<Rightarrow> bool" where
  "is_envelope v =
     (truthy (opt_prop (Some v) ''data'') \<and>
      truthy (opt_prop (opt_prop (Some v) ''meta'') ''serialization''))"

section \<open>Query keys\<close>

text \<open>
  The source's \<open>QueryKey\<close> tuple: prefix, model, operation, args and flags. The args are
  \<open>unknown\<close> and may be \<open>undefined\<close>.
\<close>

record key_flags =
  flagInfinite :: bool
  flagOptimisticUpdate :: bool

record query_key =
  keyPrefix :: string
  keyModel :: string
  keyOperation :: string
  keyArgs :: "jsval option"
  keyFlags :: key_flags

definition QUERY_KEY_PREFIX :: string where
  "QUERY_KEY_PREFIX = ''zenstack''"

text \<open>
  \<open>s.split(c)\<close> for a one-character separator. The result is never empty: splitting the
  empty string gives one empty segment.
\<close>

fun split_on :: "char \<Rightarrow> string \<Rightarrow> string list" where
  "split_on c [] = [[]]"
| "split_on c (x # xs) =
     (if x = c then [] # split_on c xs
      else (case split_on c xs of
              [] \<Rightarrow> [[x]]
            | w # ws \<Rightarrow> (x # w) # ws))"

text \<open>\<open>s.split('/').pop()\<close>: the last segment.\<close>

definition last_segment :: "string \<Rightarrow> string" where
  "last_segment s = last (split_on CHR ''/'' s)"

text \<open>
  \<open>getQueryKey\<close>. The two flags are optional parameters that default to \<open>false\<close>.
\<close>

definition getQueryKey ::
  "string \<Rightarrow> string \<Rightarrow> jsval option \<Rightarrow> bool option \<Rightarrow> bool option \<Rightarrow> js_error + query_key" where
  "getQueryKey model urlOrOperation args infinite' optimisticUpdate' =
     (if urlOrOperation = [] then Inl (Error ''Invalid urlOrOperation'')
      else
        let operation = last_segment urlOrOperation in
        Inr \<lparr> keyPrefix = QUERY_KEY_PREFIX, keyModel = model, keyOperation = operation,
              keyArgs = args,
              keyFlags = \<lparr> flagInfinite = (case infinite' of None \<Rightarrow> False | Some b \<Rightarrow> b),
                           flagOptimisticUpdate =
                             (case optimisticUpdate' of None \<Rightarrow> False | Some b \<Rightarrow> b) \<rparr> \<rparr>)"

text \<open>The key as \<open>JSON.stringify\<close> sees it: an \<open>undefined\<close> element is written \<open>null\<close>.\<close>

definition key_json :: "query_key \<Rightarrow> jsval" where
  "key_json qk =
     JArr [JStr (keyPrefix qk), JStr (keyModel qk), JStr (keyOperation qk),
           (case keyArgs qk of None \<Rightarrow> JNull | Some a \<Rightarrow> a),
           JObj [(''infinite'', JBool (flagInfinite (keyFlags qk))),
                 (''optimisticUpdate'', JBool (flagOptimisticUpdate (keyFlags qk)))]]"

section \<open>Effects\<close>

text \<open>
  What the code does beyond returning a value is a list of effects, in order: console
  output, and the calls of its collaborators. An asynchronous function is modelled by the
  effects it performs and its outcome, a thrown value (a rejection) or a result.
\<close>

datatype console_msg =
    UnableToDeserialize json_text
  | Invalidating json_text string string
  | SkipError json_text jsval
  | SkipOptOut json_text
  | OptimisticallyUpdating json_text string string

type_synonym predicate = "query_key \<Rightarrow> console_msg list \<times> bool"

datatype effect =
    Console console_msg
  | Fetch req_url "request_init option"
  | GetMutatedModels string string "jsval option"
  | ApplyMutation string string "jsval option" string string "jsval option"
  | SetCache query_key jsval
  | Invalidate predicate
  | Custom string

type_synonym 'a io = "effect list \<times> (js_error + 'a)"

definition io_return :: "'a \<Rightarrow> 'a io" where
  "io_return x = ([], Inr x)"

definition io_throw :: "js_error \<Rightarrow> 'a io" where
  "io_throw e = ([], Inl e)"

definition io_bind :: "'a io \<Rightarrow> ('a \<Rightarrow> 'b io) \<Rightarrow> 'b io" where
  "io_bind m f =
     (case m of
        (es, Inl e) \<Rightarrow> (es, Inl e)
      | (es, Inr x) \<Rightarrow> (case f x of (es', r) \<Rightarrow> (es @ es', r)))"

text \<open>A call of a collaborator: the call is recorded, the collaborator decides the outcome.\<close>

definition io_call :: "effect \<Rightarrow> js_error + 'a \<Rightarrow> 'a io" where
  "io_call ev outcome = ([ev], outcome)"

text \<open>Console output under \<open>if (logging)\<close>.\<close>

definition io_log :: "bool \<Rightarrow> console_msg \<Rightarrow> unit io" where
  "io_log logging msg = ((if logging then [Console msg] else []), Inr ())"

text \<open>
  The calls among the effects of a computation, with its outcome: everything but the
  console output.
\<close>

fun is_call :: "effect \<Rightarrow> bool" where
  "is_call (Console msg) = False"
| "is_call ev = True"

definition calls :: "'a io \<Rightarrow> 'a io" where
  "calls m = (filter is_call (fst m), snd m)"

section \<open>fetcher\<close>

definition fetcher ::
  "'meta runtime \<Rightarrow> req_url \<Rightarrow> request_init option \<Rightarrow> fetch_fn option \<Rightarrow> bool option
     \<Rightarrow> jsval option io" where
  "fetcher rt url options fetch checkReadBack =
     (let fetch' = (case fetch of None \<Rightarrow> crossFetch rt | Some f \<Rightarrow> f) in
      io_bind (io_call (Fetch url options) (fetch' url options)) (\<lambda>res.
        if \<not> res_ok res then
          (case unmarshal rt (resText res) of
             Inl e \<Rightarrow> io_throw e
           | Inr errData \<Rightarrow>
               (case get_prop errData ''error'' of
                  Inl e \<Rightarrow> io_throw e
                | Inr err \<Rightarrow>
                    if checkReadBack \<noteq> Some False \<and>
                       truthy (opt_prop err ''prisma'') \<and>
                       opt_prop err ''code'' = Some (JStr ''P2004'') \<and>
                       opt_prop err ''reason'' = Some (JStr ''RESULT_NOT_READABLE'')
                    then io_return None
                    else io_throw (FetchError err (resStatus res))))
        else
          (let textResult = resText res in
           case unmarshal rt textResult of
             Inl e \<Rightarrow> io_bind (io_log True (UnableToDeserialize textResult)) (\<lambda>_. io_throw e)
           | Inr parsed \<Rightarrow>
               (case get_prop parsed ''data'' of
                  Inl e \<Rightarrow> io_bind (io_log True (UnableToDeserialize textResult)) (\<lambda>_. io_throw e)
                | Inr d \<Rightarrow> io_return d))))"

section \<open>Invalidation\<close>

text \<open>\<open>findNestedRead\<close>: does the query read one of the target models through a relation?\<close>

definition findNestedRead :: "'meta runtime \<Rightarrow> string \<Rightarrow> string list \<Rightarrow> 'meta \<Rightarrow> jsval \<Rightarrow> bool" where
  "findNestedRead rt visitingModel targetModels modelMeta args =
     (let modelsRead = getReadModels rt visitingModel modelMeta args in
      list_ex (\<lambda>m. m \<in> set modelsRead) targetModels)"

text \<open>
  The arrow function that \<open>getInvalidationPredicate\<close> returns, with the variables it
  captures as parameters. It answers with its console output and the boolean.
\<close>

definition invalidationPredicate ::
  "'meta runtime \<Rightarrow> string list \<Rightarrow> string \<Rightarrow> string \<Rightarrow> 'meta \<Rightarrow> bool \<Rightarrow> predicate" where
  "invalidationPredicate rt mutatedModels model operation modelMeta logging qk =
     (let queryModel = keyModel qk; args = keyArgs qk in
      if queryModel \<in> set mutatedModels
      then ((if logging then [Invalidating (JSON_stringify (key_json qk)) model operation] else []),
            True)
      else if truthy args \<and> findNestedRead rt queryModel mutatedModels modelMeta (the args)
      then ((if logging then [Invalidating (JSON_stringify (key_json qk)) model operation] else []),
            True)
      else ([], False))"

definition getInvalidationPredicate ::
  "'meta runtime \<Rightarrow> string \<Rightarrow> string \<Rightarrow> jsval option \<Rightarrow> 'meta \<Rightarrow> bool \<Rightarrow> predicate io" where
  "getInvalidationPredicate rt model operation mutationArgs modelMeta logging =
     io_bind (io_call (GetMutatedModels model operation mutationArgs)
                (getMutatedModels rt model operation mutationArgs modelMeta))
       (\<lambda>mutatedModels.
          io_return (invalidationPredicate rt mutatedModels model operation modelMeta logging))"

section \<open>Mutation options and lifecycle hooks\<close>

text \<open>
  A lifecycle hook takes the arguments of its phase and may return anything. The options
  of a mutation hold the three optional hooks; \<open>useModelMutation\<close> adds \<open>mutationFn\<close>.
\<close>

type_synonym hook = "jsval option list \<Rightarrow> jsval option io"

record mutation_options =
  onMutate :: "hook option"
  onSuccess :: "hook option"
  onSettled :: "hook option"

record final_options = mutation_options +
  mutationFn :: "jsval \<Rightarrow> jsval option io"

text \<open>\<open>args[i]\<close> of a rest parameter: \<open>undefined\<close> beyond its length.\<close>

definition arg :: "jsval option list \<Rightarrow> nat \<Rightarrow> jsval option" where
  "arg args i = (if i < length args then args ! i else None)"

text \<open>\<open>orig?.(...args)\<close>: \<open>undefined\<close> when there is no hook.\<close>

fun call_hook :: "hook option \<Rightarrow> jsval option list \<Rightarrow> jsval option io" where
  "call_hook None args = io_return None"
| "call_hook (Some h) args = h args"

type_synonym invalidate_func = "predicate \<Rightarrow> js_error + unit"

definition setupInvalidation ::
  "'meta runtime \<Rightarrow> string \<Rightarrow> string \<Rightarrow> 'meta \<Rightarrow> 'a mutation_options_scheme \<Rightarrow> invalidate_func
     \<Rightarrow> bool \<Rightarrow> 'a mutation_options_scheme" where
  "setupInvalidation rt model operation modelMeta options invalidate logging =
     (let origOnSuccess = onSuccess options in
      options \<lparr> onSuccess := Some (\<lambda>args.
        let variables = arg args 1 in
        io_bind (getInvalidationPredicate rt model operation variables modelMeta logging)
          (\<lambda>predicate.
             io_bind (io_call (Invalidate predicate) (invalidate predicate))
               (\<lambda>_. call_hook origOnSuccess args))) \<rparr>)"

section \<open>Optimistic update\<close>

record query_state =
  stateData :: "jsval option"
  stateError :: "jsval option"

record cache_item =
  queryKey :: query_key
  state :: query_state

type_synonym set_cache_func = "query_key \<Rightarrow> jsval \<Rightarrow> js_error + unit"

fun optimisticUpdate ::
  "'meta runtime \<Rightarrow> string \<Rightarrow> string \<Rightarrow> jsval option \<Rightarrow> 'meta \<Rightarrow> cache_item list
     \<Rightarrow> set_cache_func \<Rightarrow> bool \<Rightarrow> unit io" where
  "optimisticUpdate rt mutationModel mutationOp mutationArgs modelMeta [] setCache logging =
     io_return ()"
| "optimisticUpdate rt mutationModel mutationOp mutationArgs modelMeta (cacheItem # rest)
       setCache logging =
     (let qk = queryKey cacheItem;
          dat = stateData (state cacheItem);
          err = stateError (state cacheItem)
      in
      if truthy err then
        io_bind (io_log logging (SkipError (JSON_stringify (key_json qk)) (the err)))
          (\<lambda>_. optimisticUpdate rt mutationModel mutationOp mutationArgs modelMeta rest
                  setCache logging)
      else if \<not> flagOptimisticUpdate (keyFlags qk) then
        io_bind (io_log logging (SkipOptOut (JSON_stringify (key_json qk))))
          (\<lambda>_. optimisticUpdate rt mutationModel mutationOp mutationArgs modelMeta rest
                  setCache logging)
      else
        io_bind
          (io_call
             (ApplyMutation (keyModel qk) (keyOperation qk) dat
                mutationModel mutationOp mutationArgs)
             (applyMutation rt (keyModel qk) (keyOperation qk) dat
                mutationModel mutationOp mutationArgs modelMeta logging))
          (\<lambda>mutatedData.
             io_bind
               (case mutatedData of
                  None \<Rightarrow> io_return ()
                | Some d \<Rightarrow>
                    io_bind
                      (io_log logging
                         (OptimisticallyUpdating (JSON_stringify (key_json qk))
                            mutationModel mutationOp))
                      (\<lambda>_. io_call (SetCache qk d) (setCache qk d)))
               (\<lambda>_. optimisticUpdate rt mutationModel mutationOp mutationArgs modelMeta rest
                       setCache logging)))"

text \<open>
  Modelled from the spec: the cache store, which belongs to the query library. The spec
  gives \<open>setCache(identity, data)\<close> as the write primitive: it replaces the data of the
  entry with that identity and touches no other entry. What the store does to the state
  of the written entry is the parameter \<open>upd\<close>. Replaying the \<open>setCache\<close> calls of a
  computation on a store gives the store it leaves behind.
\<close>

definition set_cache_entry ::
  "(jsval \<Rightarrow> query_state \<Rightarrow> query_state) \<Rightarrow> query_key \<Rightarrow> jsval \<Rightarrow> cache_item list
     \<Rightarrow> cache_item list" where
  "set_cache_entry upd k d store =
     map (\<lambda>c. if queryKey c = k then c \<lparr> state := upd d (state c) \<rparr> else c) store"

fun replay_setCache ::
  "(jsval \<Rightarrow> query_state \<Rightarrow> query_state) \<Rightarrow> effect list \<Rightarrow> cache_item list \<Rightarrow> cache_item list" where
  "replay_setCache upd [] store = store"
| "replay_setCache upd (SetCache k d # es) store =
     replay_setCache upd es (set_cache_entry upd k d store)"
| "replay_setCache upd (e # es) store = replay_setCache upd es store"

definition setupOptimisticUpdate ::
  "'meta runtime \<Rightarrow> string \<Rightarrow> string \<Rightarrow> 'meta \<Rightarrow> 'a mutation_options_scheme \<Rightarrow> cache_item list
     \<Rightarrow> set_cache_func \<Rightarrow> invalidate_func option \<Rightarrow> bool \<Rightarrow> 'a mutation_options_scheme" where
  "setupOptimisticUpdate rt model operation modelMeta options queryCache setCache invalidate
       logging =
     (let origOnMutate = onMutate options;
          origOnSettled = onSettled options
      in
      options
        \<lparr> onMutate := Some (\<lambda>args.
            let variables = arg args 0 in
            io_bind (optimisticUpdate rt model operation variables modelMeta queryCache
                       setCache logging)
              (\<lambda>_. call_hook origOnMutate args)),
          onSettled := Some (\<lambda>args.
            io_bind
              (case invalidate of
                 None \<Rightarrow> io_return ()
               | Some invalidate' \<Rightarrow>
                   (let variables = arg args 2 in
                    io_bind (getInvalidationPredicate rt model operation variables modelMeta
                               logging)
                      (\<lambda>predicate. io_call (Invalidate predicate) (invalidate' predicate))))
              (\<lambda>_. call_hook origOnSettled args)) \<rparr>)"

section \<open>The mutation hook\<close>

definition makeUrl :: "'meta runtime \<Rightarrow> string \<Rightarrow> jsval option \<Rightarrow> req_url" where
  "makeUrl rt url args =
     (if \<not> truthy args then \<lparr> urlPath = url, urlQ = None, urlMeta = None \<rparr>
      else
        (case serialize rt (the args) of (data, meta) \<Rightarrow>
           \<lparr> urlPath = url,
             urlQ = Some (JSON_stringify data),
             urlMeta = (if truthy meta
                        then Some (JSON_stringify (JObj [(''serialization'', the meta)]))
                        else None) \<rparr>))"

text \<open>
  The query client of the library, as far as the mutation hook uses it: invalidation by
  predicate, writing the data of a query, and the snapshot of all cached queries. The
  \<open>setCache\<close> callback that the hook builds writes the data and then cancels the queries in
  flight for the key, without awaiting the cancellation.
\<close>

record query_client =
  invalidateQueries :: invalidate_func
  setQueryData :: set_cache_func
  getAll :: "cache_item list"

definition useModelMutation ::
  "'meta runtime \<Rightarrow> query_client \<Rightarrow> bool option \<Rightarrow> string \<Rightarrow> http_method \<Rightarrow> string \<Rightarrow> 'meta
     \<Rightarrow> mutation_options option \<Rightarrow> fetch_fn option \<Rightarrow> bool option \<Rightarrow> bool option \<Rightarrow> bool option
     \<Rightarrow> final_options" where
  "useModelMutation rt queryClient contextLogging model method url modelMeta options fetch
       invalidateQueries' checkReadBack optimisticUpdate' =
     (let invalidateQueriesOn = (case invalidateQueries' of None \<Rightarrow> True | Some b \<Rightarrow> b);
          optimisticUpdateOn = (case optimisticUpdate' of None \<Rightarrow> False | Some b \<Rightarrow> b);
          mutationFn' = (\<lambda>data.
            let reqUrl = (if method = DELETE then makeUrl rt url (Some data)
                          else \<lparr> urlPath = url, urlQ = None, urlMeta = None \<rparr>);
                fetchInit =
                  (if method \<noteq> DELETE
                   then \<lparr> reqMethod = method,
                          reqHeaders = [(''content-type'', ''application/json'')],
                          reqBody = Some (marshal rt data) \<rparr>
                   else \<lparr> reqMethod = method, reqHeaders = [], reqBody = None \<rparr>)
            in fetcher rt reqUrl (Some fetchInit) fetch checkReadBack);
          finalOptions =
            \<lparr> onMutate = (case options of None \<Rightarrow> None | Some opts \<Rightarrow> onMutate opts),
              onSuccess = (case options of None \<Rightarrow> None | Some opts \<Rightarrow> onSuccess opts),
              onSettled = (case options of None \<Rightarrow> None | Some opts \<Rightarrow> onSettled opts),
              mutationFn = mutationFn' \<rparr>;
          operation = last_segment url
      in
      if operation \<noteq> [] then
        (let logging = (case contextLogging of None \<Rightarrow> False | Some b \<Rightarrow> b);
             withInvalidation =
               (if invalidateQueriesOn
                then setupInvalidation rt model operation modelMeta finalOptions
                       (\<lambda>predicate. invalidateQueries queryClient predicate) logging
                else finalOptions)
         in
         if optimisticUpdateOn
         then setupOptimisticUpdate rt model operation modelMeta withInvalidation
                (getAll queryClient)
                (\<lambda>qk data. setQueryData queryClient qk data)
                (if invalidateQueriesOn
                 then Some (\<lambda>predicate. invalidateQueries queryClient predicate)
                 else None)
                logging
         else withInvalidation)
      else finalOptions)"

text \<open>
  Modelled from the spec: the lifecycle of a mutation, which the query library drives once
  \<open>useModelMutation\<close> has handed it the final options. The spec orders the phases: the
  before-send phase (\<open>onMutate\<close>, called with the variables), the request, the on-success
  phase (\<open>onSuccess\<close>, called with the data, the variables and the context that \<open>onMutate\<close>
  returned), and the on-settle phase (\<open>onSettled\<close>, called with the data, the error, the
  variables and the context), which runs regardless of success or failure, after the
  success phase if both fire. A failure of a phase settles the mutation with the error.
\<close>

fun error_value :: "js_error \<Rightarrow> jsval" where
  "error_value SyntaxError = JObj [(''name'', JStr ''SyntaxError'')]"
| "error_value TypeError = JObj [(''name'', JStr ''TypeError'')]"
| "error_value (Error msg) = JObj [(''message'', JStr msg)]"
| "error_value (FetchError info status) =
     JObj ((''message'', JStr ''An error occurred while fetching the data.'') #
           (case info of None \<Rightarrow> [] | Some i \<Rightarrow> [(''info'', i)]) @
           [(''status'', JNum (int status))])"
| "error_value (Rejected v) = v"

definition io_catch :: "'a io \<Rightarrow> (js_error \<Rightarrow> 'a io) \<Rightarrow> 'a io" where
  "io_catch m h =
     (case m of
        (es, Inl e) \<Rightarrow> (case h e of (es', r) \<Rightarrow> (es @ es', r))
      | (es, Inr x) \<Rightarrow> (es, Inr x))"

definition settleFailed ::
  "final_options \<Rightarrow> jsval \<Rightarrow> jsval option \<Rightarrow> js_error \<Rightarrow> jsval option io" where
  "settleFailed options variables context e =
     io_bind (call_hook (onSettled options) [None, Some (error_value e), Some variables, context])
       (\<lambda>_. io_throw e)"

definition mutate :: "final_options \<Rightarrow> jsval \<Rightarrow> jsval option io" where
  "mutate options variables =
     io_bind
       (io_catch (call_hook (onMutate options) [Some variables])
          (settleFailed options variables None))
       (\<lambda>context.
          io_catch
            (io_bind (mutationFn options variables) (\<lambda>data.
               io_bind (call_hook (onSuccess options) [data, Some variables, context]) (\<lambda>_.
                 io_bind (call_hook (onSettled options) [data, Some JNull, Some variables, context])
                   (\<lambda>_. io_return data))))
            (settleFailed options variables context))"

section \<open>Example collaborators and inputs\<close>

text \<open>
  Concrete collaborators and inputs, on which the theorems below are evaluated. The schema
  has a model \<open>User\<close> with a relation \<open>posts\<close> to the model \<open>Post\<close>. The example resolver
  reports the root model as the only mutated model; the example scanner follows an
  included \<open>posts\<close> relation; the example merge appends the created record to a cached
  list of the mutated model.
\<close>

definition fetch_returning :: "response \<Rightarrow> fetch_fn" where
  "fetch_returning res url options = Inr res"

definition fetch_failing :: fetch_fn where
  "fetch_failing url options = Inl (Rejected (JStr ''network down''))"

definition root_only :: "string \<Rightarrow> string \<Rightarrow> jsval option \<Rightarrow> unit \<Rightarrow> js_error + string list" where
  "root_only model operation args modelMeta = Inr [model]"

definition read_models :: "string \<Rightarrow> unit \<Rightarrow> jsval \<Rightarrow> string list" where
  "read_models model modelMeta args =
     (if model = ''User'' \<and> opt_prop (opt_prop (Some args) ''include'') ''posts'' \<noteq> None
      then [''User'', ''Post'']
      else [model])"

definition append_created ::
  "string \<Rightarrow> string \<Rightarrow> jsval option \<Rightarrow> string \<Rightarrow> string \<Rightarrow> jsval option \<Rightarrow> unit \<Rightarrow> bool
     \<Rightarrow> js_error + jsval option" where
  "append_created queryModel queryOp dat mutationModel mutationOp mutationArgs modelMeta logging =
     Inr (if queryModel = mutationModel \<and> mutationOp = ''create''
          then (case (dat, opt_prop mutationArgs ''data'') of
                  (Some (JArr xs), Some d) \<Rightarrow> Some (JArr (xs @ [d]))
                | _ \<Rightarrow> None)
          else None)"

definition example_runtime :: "unit runtime" where
  "example_runtime =
     \<lparr> serialize = serialize_dates,
       deserialize = deserialize_dates,
       crossFetch = fetch_failing,
       getMutatedModels = root_only,
       getReadModels = read_models,
       applyMutation = append_created \<rparr>"

definition example_url :: req_url where
  "example_url = \<lparr> urlPath = ''/api/model/post/delete'', urlQ = None, urlMeta = None \<rparr>"

definition denied_error :: jsval where
  "denied_error =
     JObj [(''prisma'', JBool True), (''code'', JStr ''P2004''),
           (''reason'', JStr ''RESULT_NOT_READABLE'')]"

definition denied_body :: jsval where
  "denied_body = JObj [(''error'', denied_error)]"

definition denied_response :: "nat \<Rightarrow> response" where
  "denied_response status = \<lparr> resStatus = status, resText = JsonText denied_body \<rparr>"

text \<open>
  A deserializer that always throws, a resolver of mutated models that always rejects, and
  the example runtime with one or the other in place.
\<close>

definition deserialize_failing :: "jsval \<Rightarrow> jsval \<Rightarrow> js_error + jsval" where
  "deserialize_failing v meta = Inl (Error ''cannot deserialize'')"

definition strict_runtime :: "unit runtime" where
  "strict_runtime = example_runtime \<lparr> deserialize := deserialize_failing \<rparr>"

definition resolver_failing ::
  "string \<Rightarrow> string \<Rightarrow> jsval option \<Rightarrow> unit \<Rightarrow> js_error + string list" where
  "resolver_failing model operation args modelMeta = Inl (Rejected (JStr ''resolution failed''))"

definition unresolving_runtime :: "unit runtime" where
  "unresolving_runtime = example_runtime \<lparr> getMutatedModels := resolver_failing \<rparr>"

definition key_of :: "string \<Rightarrow> string \<Rightarrow> jsval option \<Rightarrow> bool \<Rightarrow> query_key" where
  "key_of model operation args optimistic =
     \<lparr> keyPrefix = QUERY_KEY_PREFIX, keyModel = model, keyOperation = operation,
       keyArgs = args,
       keyFlags = \<lparr> flagInfinite = False, flagOptimisticUpdate = optimistic \<rparr> \<rparr>"

definition include_posts :: jsval where
  "include_posts = JObj [(''include'', JObj [(''posts'', JBool True)])]"

text \<open>
  Caller-supplied hooks that leave a mark and return a value, collaborators of the query
  client that resolve or reject, and a cache of two queries on \<open>Post\<close>, the first of which
  holds an error.
\<close>

definition marking_hook :: "string \<Rightarrow> jsval \<Rightarrow> hook" where
  "marking_hook name result args = ([Custom name], Inr (Some result))"

definition example_options :: mutation_options where
  "example_options =
     \<lparr> onMutate = Some (marking_hook ''onMutate'' (JStr ''context'')),
       onSuccess = Some (marking_hook ''onSuccess'' (JStr ''succeeded'')),
       onSettled = Some (marking_hook ''onSettled'' (JStr ''settled'')) \<rparr>"

definition invalidate_ok :: invalidate_func where
  "invalidate_ok predicate = Inr ()"

definition invalidate_failing :: invalidate_func where
  "invalidate_failing predicate = Inl (Rejected (JStr ''invalidation failed''))"

definition set_cache_ok :: set_cache_func where
  "set_cache_ok qk d = Inr ()"

definition set_cache_failing :: set_cache_func where
  "set_cache_failing qk d = Inl (Rejected (JStr ''cache write failed''))"

definition create_args :: jsval where
  "create_args = JObj [(''data'', JObj [(''id'', JNum 2)])]"

definition errored_item :: cache_item where
  "errored_item =
     \<lparr> queryKey = key_of ''Post'' ''findMany'' None True,
       state = \<lparr> stateData = Some (JArr []), stateError = Some (JStr ''request failed'') \<rparr> \<rparr>"

definition healthy_item :: cache_item where
  "healthy_item =
     \<lparr> queryKey = key_of ''Post'' ''findMany'' (Some (JObj [(''take'', JNum 10)])) True,
       state = \<lparr> stateData = Some (JArr [JObj [(''id'', JNum 1)]]), stateError = None \<rparr> \<rparr>"

definition example_cache :: "cache_item list" where
  "example_cache = [errored_item, healthy_item]"

definition write_data :: "jsval \<Rightarrow> query_state \<Rightarrow> query_state" where
  "write_data d st = \<lparr> stateData = Some d, stateError = None \<rparr>"

definition example_client :: query_client where
  "example_client =
     \<lparr> invalidateQueries = invalidate_ok, setQueryData = set_cache_ok, getAll = example_cache \<rparr>"

definition created_response :: response where
  "created_response =
     \<lparr> resStatus = 200, resText = JsonText (JObj [(''data'', JObj [(''id'', JNum 2)])]) \<rparr>"

definition create_request :: effect where
  "create_request =
     Fetch \<lparr> urlPath = ''/api/model/post/create'', urlQ = None, urlMeta = None \<rparr>
       (Some \<lparr> reqMethod = POST,
               reqHeaders = [(''content-type'', ''application/json'')],
               reqBody = Some (JsonText create_args) \<rparr>)"

section \<open>Verified properties\<close>

subsection \<open>Helper lemmas on values and serialization\<close>

lemma to_json_id: "is_json x \<Longrightarrow> to_json x = x"
  by (induction x) (auto simp: list_all_iff intro!: map_idI)

lemma date_paths_elems_nil:
  "(\<And>v. v \<in> set vs \<Longrightarrow> date_paths v = []) \<Longrightarrow> date_paths_elems i vs = []"
  by (induction vs arbitrary: i) auto

lemma date_paths_props_nil:
  "\<forall>v \<in> snd ` set kvs. date_paths v = [] \<Longrightarrow> date_paths_props kvs = []"
  by (induction kvs) auto

lemma date_paths_nil: "is_json x \<Longrightarrow> date_paths x = []"
proof (induction x)
  case (JArr vs)
  then show ?case by (auto simp: list_all_iff intro!: date_paths_elems_nil)
next
  case (JObj kvs)
  then have "\<forall>v \<in> snd ` set kvs. date_paths v = []"
    by (fastforce simp: list_all_iff)
  then show ?case by (simp add: date_paths_props_nil)
qed simp_all

lemma serialize_dates_json: "is_json x \<Longrightarrow> serialize_dates x = (x, None)"
  by (simp add: serialize_dates_def to_json_id date_paths_nil)

lemma deep_equal_refl: "deep_equal x x"
proof (induction x)
  case (JArr vs)
  then show ?case by (simp add: list_all2_same)
next
  case (JObj kvs)
  have "\<And>k. k \<in> fst ` set kvs \<Longrightarrow> \<exists>v. map_of kvs k = Some v \<and> (k, v) \<in> set kvs"
    by (metis map_of_SomeD map_of_eq_None_iff not_Some_eq)
  with JObj show ?case
    by (fastforce split: option.splits)
qed simp_all

lemma get_prop_opt: "x \<noteq> JNull \<Longrightarrow> get_prop x k = Inr (opt_prop (Some x) k)"
  by (cases x) simp_all

subsection \<open>The modelled serializer\<close>

text \<open>
  The modelled deserializer inverts the modelled serializer on every well-formed value,
  dates included: whatever \<open>marshal\<close> and \<open>unmarshal\<close> lose is not lost by the
  serializer.
\<close>

lemma restore_elem:
  "i < length xs \<Longrightarrow>
   fold restore_date (map ((#) (JNum (int i))) ps) (JArr xs)
     = JArr (xs[i := fold restore_date ps (xs ! i)])"
  by (induction ps arbitrary: xs) simp_all

lemma restore_prop:
  "fold restore_date (map ((#) (JStr k)) ps) (JObj kvs)
     = JObj (map (\<lambda>kv. if fst kv = k then (fst kv, fold restore_date ps (snd kv)) else kv) kvs)"
proof (induction ps arbitrary: kvs)
  case Nil
  have "map (\<lambda>kv. if fst kv = k then (fst kv, fold restore_date [] (snd kv)) else kv) kvs = kvs"
    by (rule map_idI) auto
  then show ?case by simp
next
  case (Cons p ps)
  have "map (\<lambda>kv. if fst kv = k then (fst kv, fold restore_date ps (snd kv)) else kv)
          (map (\<lambda>kv. if fst kv = k then (fst kv, restore_date p (snd kv)) else kv) kvs)
        = map (\<lambda>kv. if fst kv = k then (fst kv, fold restore_date ps (restore_date p (snd kv)))
                      else kv) kvs"
    by (induction kvs) auto
  with Cons show ?case by simp
qed

lemma restore_elems:
  assumes "\<And>v. v \<in> set vs \<Longrightarrow> fold restore_date (date_paths v) (to_json v) = v"
  shows "fold restore_date (date_paths_elems (length pre) vs) (JArr (pre @ map to_json vs))
           = JArr (pre @ vs)"
  using assms
proof (induction vs arbitrary: pre)
  case Nil
  then show ?case by simp
next
  case (Cons v vs)
  have "fold restore_date (date_paths_elems (Suc (length pre)) vs)
          (JArr ((pre @ [v]) @ map to_json vs)) = JArr ((pre @ [v]) @ vs)"
    using Cons.IH [of "pre @ [v]"] Cons.prems by simp
  then show ?case
    using Cons.prems by (simp add: restore_elem)
qed

lemma restore_props:
  assumes "\<And>k v. (k, v) \<in> set kvs \<Longrightarrow> fold restore_date (date_paths v) (to_json v) = v"
    and "distinct (map fst kvs)"
    and "fst ` set pre \<inter> fst ` set kvs = {}"
  shows "fold restore_date (date_paths_props kvs) (JObj (pre @ map (map_prod id to_json) kvs))
           = JObj (pre @ kvs)"
  using assms
proof (induction kvs arbitrary: pre)
  case Nil
  then show ?case by simp
next
  case (Cons kv kvs)
  obtain k v where kv: "kv = (k, v)" by (cases kv)
  have v: "fold restore_date (date_paths v) (to_json v) = v"
    by (rule Cons.prems(1) [of k v]) (simp add: kv)
  let ?F = "\<lambda>kv. if fst kv = k then (fst kv, fold restore_date (date_paths v) (snd kv)) else kv"
  have pre: "map ?F pre = pre"
    using Cons.prems(3) kv by (intro map_idI) auto
  have rest: "map ?F (map (map_prod id to_json) kvs) = map (map_prod id to_json) kvs"
    using Cons.prems(2) kv by (intro map_idI) force
  have "fold restore_date (map ((#) (JStr k)) (date_paths v))
          (JObj (pre @ (k, to_json v) # map (map_prod id to_json) kvs))
        = JObj (map ?F (pre @ (k, to_json v) # map (map_prod id to_json) kvs))"
    by (rule restore_prop)
  also have "map ?F (pre @ (k, to_json v) # map (map_prod id to_json) kvs)
        = map ?F pre @ ?F (k, to_json v) # map ?F (map (map_prod id to_json) kvs)"
    by (simp only: map_append list.map)
  also have "\<dots> = (pre @ [(k, v)]) @ map (map_prod id to_json) kvs"
    by (simp only: pre rest) (simp add: v)
  finally have step: "fold restore_date (map ((#) (JStr k)) (date_paths v))
                (JObj (pre @ (k, to_json v) # map (map_prod id to_json) kvs))
              = JObj ((pre @ [(k, v)]) @ map (map_prod id to_json) kvs)" .
  have IH: "fold restore_date (date_paths_props kvs)
          (JObj ((pre @ [(k, v)]) @ map (map_prod id to_json) kvs)) = JObj ((pre @ [(k, v)]) @ kvs)"
    using Cons.prems kv by (intro Cons.IH) auto
  have "fold restore_date (date_paths_props (kv # kvs))
          (JObj (pre @ map (map_prod id to_json) (kv # kvs)))
        = fold restore_date (date_paths_props kvs)
            (fold restore_date (map ((#) (JStr k)) (date_paths v))
               (JObj (pre @ (k, to_json v) # map (map_prod id to_json) kvs)))"
    by (simp add: kv del: fold_map)
  also have "\<dots> = JObj ((pre @ [(k, v)]) @ kvs)"
    by (simp only: step IH)
  also have "\<dots> = JObj (pre @ kv # kvs)"
    by (simp add: kv)
  finally show ?case .
qed

lemma restore_all: "wf_value x \<Longrightarrow> fold restore_date (date_paths x) (to_json x) = x"
proof (induction x)
  case (JArr vs)
  then have "\<And>v. v \<in> set vs \<Longrightarrow> fold restore_date (date_paths v) (to_json v) = v"
    by (simp add: list_all_iff)
  from restore_elems [OF this, where pre = "[]"] show ?case by simp
next
  case (JObj kvs)
  then have "\<And>k v. (k, v) \<in> set kvs \<Longrightarrow> fold restore_date (date_paths v) (to_json v) = v"
    by (fastforce simp: list_all_iff)
  from restore_props [OF this, where pre = "[]"] JObj.prems show ?case by simp
qed simp_all

lemma meta_paths_serialize:
  "concat (map (path_of \<circ> JArr) ps) = ps"
  by (induction ps) simp_all

lemma deserialize_serialize_dates:
  assumes "wf_value x"
  shows "case serialize_dates x of
           (d, None) \<Rightarrow> d = x
         | (d, Some m) \<Rightarrow> deserialize_dates d m = Inr x"
proof (cases "date_paths x = []")
  case True
  with restore_all [OF assms] show ?thesis
    by (simp add: serialize_dates_def)
next
  case False
  with restore_all [OF assms] show ?thesis
    by (simp add: serialize_dates_def deserialize_dates_def meta_paths_serialize)
qed

text \<open>
  \<open>unmarshal\<close> decodes the response envelope: the serialized data under \<open>data\<close>, beside
  its metadata under \<open>meta.serialization\<close>, comes back as the value itself.
\<close>

lemma unmarshal_response_envelope:
  assumes "wf_value x" and "serialize_dates x = (d, Some m)" and "js_truthy d"
  shows "unmarshal example_runtime
           (JsonText (JObj [(''data'', d), (''meta'', JObj [(''serialization'', m)])]))
           = Inr (JObj [(''data'', x), (''meta'', JObj [(''serialization'', m)])])"
proof -
  have "deserialize_dates d m = Inr x"
    using deserialize_serialize_dates [OF assms(1)] assms(2) by simp
  moreover have "js_truthy m"
    using assms(2) by (auto simp: serialize_dates_def split: if_splits)
  ultimately show ?thesis
    using assms(3) by (simp add: unmarshal_def example_runtime_def)
qed

subsection \<open>The round trip of marshal and unmarshal\<close>

text \<open>
  Claim C1, as amended. \<open>marshal\<close> writes the request shape (the metadata spliced into the
  data as \<open>meta.serialization\<close>) and \<open>unmarshal\<close> reads the response shape (a \<open>data\<close>
  property beside \<open>meta.serialization\<close>), so a value holding a date does not come back.
  What holds: for every JSON-representable value \<open>x\<close> without rich types (the serializer
  returns it as it is, without metadata), other than \<open>null\<close> and other than a value of
  the response shape (a truthy \<open>data\<close> and a truthy \<open>meta.serialization\<close>),
  \<open>unmarshal (marshal x)\<close> returns \<open>x\<close> itself, which is deep-equal to \<open>x\<close>.
\<close>

theorem marshal_unmarshal_json:
  assumes "is_json x" and "serialize rt x = (x, None)"
    and "x \<noteq> JNull" and "\<not> is_envelope x"
  shows "unmarshal rt (marshal rt x) = Inr x \<and> round_trips rt x"
proof -
  have m: "marshal rt x = JsonText x"
    using assms(1,2) by (simp add: marshal_def JSON_stringify_def to_json_id)
  have u: "unmarshal rt (JsonText x) = Inr x"
    using assms(3,4) by (auto simp add: unmarshal_def get_prop_opt is_envelope_def)
  show ?thesis
    by (simp add: round_trips_def m u deep_equal_refl)
qed

theorem marshal_unmarshal_json_witness:
  "is_json (JObj [(''title'', JStr ''hello''), (''views'', JNum 3)]) \<and>
   serialize example_runtime (JObj [(''title'', JStr ''hello''), (''views'', JNum 3)])
     = (JObj [(''title'', JStr ''hello''), (''views'', JNum 3)], None) \<and>
   JObj [(''title'', JStr ''hello''), (''views'', JNum 3)] \<noteq> JNull \<and>
   \<not> is_envelope (JObj [(''title'', JStr ''hello''), (''views'', JNum 3)]) \<and>
   unmarshal example_runtime
       (marshal example_runtime (JObj [(''title'', JStr ''hello''), (''views'', JNum 3)]))
     = Inr (JObj [(''title'', JStr ''hello''), (''views'', JNum 3)]) \<and>
   round_trips example_runtime (JObj [(''title'', JStr ''hello''), (''views'', JNum 3)])"
  using marshal_unmarshal_json [where rt = example_runtime
      and x = "JObj [(''title'', JStr ''hello''), (''views'', JNum 3)]"]
  by (simp add: is_envelope_def example_runtime_def serialize_dates_def)

text \<open>
  The claim as stated fails on a value with a date: the object \<open>{createdAt: Date}\<close> comes
  back with a string in place of the date and with an additional \<open>meta\<close> property.
\<close>

theorem marshal_unmarshal_date_counterexample:
  "unmarshal example_runtime
       (marshal example_runtime (JObj [(''createdAt'', JDate ''2024-01-01T00:00:00.000Z'')]))
     = Inr (JObj [(''createdAt'', JStr ''2024-01-01T00:00:00.000Z''),
                  (''meta'', JObj [(''serialization'',
                     JObj [(''dates'', JArr [JArr [JStr ''createdAt'']])])])]) \<and>
   \<not> round_trips example_runtime (JObj [(''createdAt'', JDate ''2024-01-01T00:00:00.000Z'')])"
  by (simp add: round_trips_def marshal_def unmarshal_def JSON_stringify_def
      example_runtime_def serialize_dates_def)

lemma map_of_to_json:
  "map_of (map (map_prod id to_json) kvs) k = map_option to_json (map_of kvs k)"
  by (induction kvs) auto

lemma marshal_rich:
  assumes "serialize rt x = (d, Some m)" and "js_truthy m"
  shows "\<exists>kvs v. marshal rt x = JsonText (JObj kvs) \<and> map_of kvs ''meta'' = Some v"
  using assms
  by (simp add: marshal_def JSON_stringify_def map_of_to_json update_conv')

lemma unmarshal_keeps_meta:
  assumes "unmarshal rt (JsonText (JObj kvs)) = Inr y" and "map_of kvs ''meta'' = Some v"
  shows "\<exists>kvs'. y = JObj kvs' \<and> map_of kvs' ''meta'' = Some v"
  using assms by (auto simp: unmarshal_def update_conv' split: if_splits sum.splits)

lemma deep_equal_meta:
  assumes "deep_equal (JObj kvs) x" and "map_of kvs ''meta'' = Some v"
  shows "opt_prop (Some x) ''meta'' \<noteq> None"
proof (cases x)
  case (JObj kvs')
  from assms(2) have "''meta'' \<in> set (map fst kvs)"
    by (metis map_of_eq_None_iff option.distinct(1) set_map)
  with assms(1) JObj have "''meta'' \<in> set (map fst kvs')"
    by simp
  then show ?thesis
    using JObj by (simp add: map_of_eq_None_iff)
qed (use assms(1) in simp_all)

text \<open>
  More generally, whatever the serializer: no value for which it reports metadata, and
  which has no \<open>meta\<close> property of its own, makes the round trip. What comes back always
  carries the metadata under \<open>meta\<close>.
\<close>

lemma rich_value_does_not_round_trip:
  assumes "serialize rt x = (d, Some m)" and "js_truthy m"
    and "opt_prop (Some x) ''meta'' = None"
  shows "\<not> round_trips rt x"
proof -
  obtain kvs v where m: "marshal rt x = JsonText (JObj kvs)" "map_of kvs ''meta'' = Some v"
    using marshal_rich [OF assms(1,2)] by blast
  show ?thesis
  proof (cases "unmarshal rt (JsonText (JObj kvs))")
    case (Inl e)
    then show ?thesis by (simp add: round_trips_def m(1))
  next
    case (Inr y)
    from unmarshal_keeps_meta [OF Inr m(2)]
    obtain kvs' where u: "y = JObj kvs'" "map_of kvs' ''meta'' = Some v"
      by blast
    show ?thesis
      using deep_equal_meta [OF _ u(2), of x] assms(3)
      by (auto simp: round_trips_def m(1) Inr u(1))
  qed
qed

text \<open>The two exclusions of the amended claim are needed: \<open>null\<close> makes \<open>unmarshal\<close> throw.\<close>

lemma marshal_unmarshal_null:
  "unmarshal example_runtime (marshal example_runtime JNull) = Inl TypeError"
  by (simp add: marshal_def unmarshal_def JSON_stringify_def example_runtime_def
      serialize_dates_def)

text \<open>A plain JSON value of the response shape is deserialized on the way back.\<close>

lemma marshal_unmarshal_envelope:
  "unmarshal example_runtime (marshal example_runtime (JObj [(''data'', JStr ''2024''),
       (''meta'', JObj [(''serialization'', JObj [(''dates'', JArr [JArr []])])])]))
     = Inr (JObj [(''data'', JDate ''2024''),
       (''meta'', JObj [(''serialization'', JObj [(''dates'', JArr [JArr []])])])])"
  by (simp add: marshal_def unmarshal_def JSON_stringify_def example_runtime_def
      serialize_dates_def deserialize_dates_def)

subsection \<open>fetcher and the policy-denied read-back\<close>

lemma unmarshal_plain:
  assumes "\<not> is_envelope body" and "body \<noteq> JNull"
  shows "unmarshal rt (JsonText body) = Inr body"
  using assms by (auto simp add: unmarshal_def get_prop_opt is_envelope_def)

text \<open>
  A body of the response shape is deserialized first, and what \<open>deserialize\<close> throws
  leaves \<open>unmarshal\<close>.
\<close>

lemma unmarshal_deserialize_throws:
  assumes "get_prop body ''data'' = Inr (Some d)" and "js_truthy d"
    and "opt_prop (opt_prop (Some body) ''meta'') ''serialization'' = Some m" and "js_truthy m"
    and "deserialize rt d m = Inl e"
  shows "unmarshal rt (JsonText body) = Inl e"
  using assms by (cases body) (simp_all add: unmarshal_def)

lemma unmarshal_keeps_prop:
  assumes "unmarshal rt (JsonText body) = Inr errData"
    and "get_prop body k = Inr (Some v)" and "k \<noteq> ''data''"
  shows "get_prop errData k = Inr (Some v)"
proof (cases body)
  case (JObj kvs)
  with assms show ?thesis
    by (auto simp: unmarshal_def update_conv' split: if_splits sum.splits)
qed (use assms in simp_all)

text \<open>
  Claim C3. The fetch resolves with a response whose status is not in the 2xx range and
  whose body carries the policy-denied pattern: \<open>error.prisma\<close> true, \<open>error.code\<close>
  \<open>P2004\<close>, \<open>error.reason\<close> \<open>RESULT_NOT_READABLE\<close>. \<open>fetcher\<close> unmarshals the body before
  it looks at the error, so the body has to unmarshal: every body other than \<open>null\<close>
  does, unless it also carries data beside serialization metadata and the deserializer
  throws on them. Then \<open>fetcher\<close> resolves to \<open>undefined\<close> unless \<open>checkReadBack\<close> is
  \<open>false\<close>; with \<open>checkReadBack = false\<close> it throws the error that carries the response's
  error payload and its status.
\<close>

theorem fetcher_policy_denied:
  assumes "(case fetch of None \<Rightarrow> crossFetch rt | Some f \<Rightarrow> f) url options = Inr res"
    and "\<not> res_ok res"
    and "resText res = JsonText body"
    and "unmarshal rt (JsonText body) = Inr errData"
    and "get_prop body ''error'' = Inr (Some err)"
    and "opt_prop (Some err) ''prisma'' = Some (JBool True)"
    and "opt_prop (Some err) ''code'' = Some (JStr ''P2004'')"
    and "opt_prop (Some err) ''reason'' = Some (JStr ''RESULT_NOT_READABLE'')"
  shows "(checkReadBack \<noteq> Some False \<longrightarrow>
            fetcher rt url options fetch checkReadBack = ([Fetch url options], Inr None)) \<and>
         (checkReadBack = Some False \<longrightarrow>
            fetcher rt url options fetch checkReadBack
              = ([Fetch url options], Inl (FetchError (Some err) (resStatus res))))"
proof -
  have e: "get_prop errData ''error'' = Inr (Some err)"
    using unmarshal_keeps_prop [OF assms(4,5)] by simp
  show ?thesis
    using assms(1,2,3,4,6,7,8) e
    by (simp add: fetcher_def io_bind_def io_call_def io_return_def io_throw_def)
qed

theorem fetcher_policy_denied_witness:
  "\<not> res_ok (denied_response 403) \<and>
   unmarshal example_runtime (JsonText denied_body) = Inr denied_body \<and>
   unmarshal strict_runtime (JsonText denied_body) = Inr denied_body \<and>
   fetcher example_runtime example_url None (Some (fetch_returning (denied_response 403))) None
     = ([Fetch example_url None], Inr None) \<and>
   fetcher example_runtime example_url None (Some (fetch_returning (denied_response 403)))
       (Some True)
     = ([Fetch example_url None], Inr None) \<and>
   fetcher example_runtime example_url None (Some (fetch_returning (denied_response 403)))
       (Some False)
     = ([Fetch example_url None], Inl (FetchError (Some denied_error) 403)) \<and>
   fetcher strict_runtime example_url None (Some (fetch_returning (denied_response 403))) None
     = ([Fetch example_url None], Inr None)"
  using
    fetcher_policy_denied [where fetch = "Some (fetch_returning (denied_response 403))"
      and rt = example_runtime and url = example_url and options = None
      and res = "denied_response 403" and body = denied_body and errData = denied_body
      and err = denied_error and checkReadBack = "None"]
    fetcher_policy_denied [where fetch = "Some (fetch_returning (denied_response 403))"
      and rt = example_runtime and url = example_url and options = None
      and res = "denied_response 403" and body = denied_body and errData = denied_body
      and err = denied_error and checkReadBack = "Some True"]
    fetcher_policy_denied [where fetch = "Some (fetch_returning (denied_response 403))"
      and rt = example_runtime and url = example_url and options = None
      and res = "denied_response 403" and body = denied_body and errData = denied_body
      and err = denied_error and checkReadBack = "Some False"]
    fetcher_policy_denied [where fetch = "Some (fetch_returning (denied_response 403))"
      and rt = strict_runtime and url = example_url and options = None
      and res = "denied_response 403" and body = denied_body and errData = denied_body
      and err = denied_error and checkReadBack = "None"]
  by (simp add: fetch_returning_def denied_response_def denied_body_def denied_error_def
      res_ok_def unmarshal_def)

text \<open>
  Claim C2. The response has status 200 and its body is a failure envelope: it carries
  the error with the policy-denied pattern, \<open>error.prisma\<close> true, \<open>error.code\<close> \<open>P2004\<close>,
  \<open>error.reason\<close> \<open>RESULT_NOT_READABLE\<close>, and no \<open>data\<close>. Then \<open>fetcher\<close> resolves to
  \<open>undefined\<close> and throws nothing, with default read-back checking as with any other
  \<open>checkReadBack\<close>: a 200 response takes the success path, whose result is the \<open>data\<close>
  property of the body.
\<close>

theorem fetcher_ok_error_body:
  assumes "(case fetch of None \<Rightarrow> crossFetch rt | Some f \<Rightarrow> f) url options = Inr res"
    and "resStatus res = 200"
    and "resText res = JsonText body"
    and "get_prop body ''error'' = Inr (Some err)"
    and "opt_prop (Some err) ''prisma'' = Some (JBool True)"
    and "opt_prop (Some err) ''code'' = Some (JStr ''P2004'')"
    and "opt_prop (Some err) ''reason'' = Some (JStr ''RESULT_NOT_READABLE'')"
    and "get_prop body ''data'' = Inr None"
  shows "fetcher rt url options fetch checkReadBack = ([Fetch url options], Inr None)"
proof -
  have u: "unmarshal rt (JsonText body) = Inr body"
    using assms(4,8) by (cases body) (simp_all add: unmarshal_def)
  show ?thesis
    using assms(1,2,3,8) u
    by (simp add: fetcher_def io_bind_def io_call_def io_return_def res_ok_def)
qed

theorem fetcher_ok_error_body_witness:
  "resStatus (denied_response 200) = 200 \<and>
   get_prop denied_body ''error'' = Inr (Some denied_error) \<and>
   get_prop denied_body ''data'' = Inr None \<and>
   fetcher example_runtime example_url None (Some (fetch_returning (denied_response 200))) None
     = ([Fetch example_url None], Inr None) \<and>
   fetcher strict_runtime example_url None (Some (fetch_returning (denied_response 200)))
       (Some False)
     = ([Fetch example_url None], Inr None)"
  using
    fetcher_ok_error_body [where fetch = "Some (fetch_returning (denied_response 200))"
      and rt = example_runtime and url = example_url and options = None
      and res = "denied_response 200" and body = denied_body and err = denied_error
      and checkReadBack = "None"]
    fetcher_ok_error_body [where fetch = "Some (fetch_returning (denied_response 200))"
      and rt = strict_runtime and url = example_url and options = None
      and res = "denied_response 200" and body = denied_body and err = denied_error
      and checkReadBack = "Some False"]
  by (simp add: fetch_returning_def denied_response_def denied_body_def denied_error_def)

subsection \<open>Query keys\<close>

lemma split_on_not_Nil: "split_on c s \<noteq> []"
  by (induction s) (auto split: list.splits)

lemma split_on_single: "split_on c s = [w] \<Longrightarrow> w = s \<and> c \<notin> set s"
  by (induction s arbitrary: w) (auto split: list.splits if_splits simp: split_on_not_Nil)

lemma last_split_on_Nil: "last (split_on c s) = [] \<longleftrightarrow> s = [] \<or> last s = c"
proof (induction s)
  case Nil
  then show ?case by simp
next
  case (Cons x xs)
  show ?case
  proof (cases "split_on c xs")
    case Nil
    then show ?thesis using split_on_not_Nil by blast
  next
    case (Cons w ws)
    show ?thesis
    proof (cases ws)
      case Nil
      with Cons have "w = xs" "c \<notin> set xs"
        using split_on_single by blast+
      with Cons Nil show ?thesis
        by (cases "xs = []") auto
    next
      case (Cons w' ws')
      with \<open>split_on c xs = w # ws\<close> Cons.IH show ?thesis
        by (cases "xs = []") auto
    qed
  qed
qed

lemma last_segment_nonempty: "s \<noteq> [] \<Longrightarrow> last s \<noteq> CHR ''/'' \<Longrightarrow> last_segment s \<noteq> []"
  by (simp add: last_segment_def last_split_on_Nil)

text \<open>
  Claim C4, as amended. \<open>getQueryKey\<close> throws when its url-or-operation argument is empty,
  which is the only check it makes. Otherwise it builds the key from the prefix
  \<open>zenstack\<close>, the model as given (unchecked, so it may be empty), the last segment of the
  argument as the operation, the args and the flags; the operation is non-empty whenever
  the argument does not end with a slash.
\<close>

theorem getQueryKey_result:
  "(urlOrOperation = [] \<longrightarrow>
      getQueryKey model urlOrOperation args infinite' optimisticUpdate'
        = Inl (Error ''Invalid urlOrOperation'')) \<and>
   (urlOrOperation \<noteq> [] \<longrightarrow>
      getQueryKey model urlOrOperation args infinite' optimisticUpdate'
        = Inr \<lparr> keyPrefix = ''zenstack'', keyModel = model,
                keyOperation = last_segment urlOrOperation, keyArgs = args,
                keyFlags = \<lparr> flagInfinite = (infinite' = Some True),
                             flagOptimisticUpdate = (optimisticUpdate' = Some True) \<rparr> \<rparr> \<and>
      (last urlOrOperation \<noteq> CHR ''/'' \<longrightarrow> last_segment urlOrOperation \<noteq> []))"
  by (auto simp add: getQueryKey_def Let_def QUERY_KEY_PREFIX_def last_segment_nonempty
      split: option.splits)

theorem getQueryKey_result_witness:
  "getQueryKey ''Post'' [] None None None = Inl (Error ''Invalid urlOrOperation'') \<and>
   ''/api/model/post/findMany'' \<noteq> [] \<and>
   last ''/api/model/post/findMany'' \<noteq> CHR ''/'' \<and>
   getQueryKey ''Post'' ''/api/model/post/findMany'' None None (Some True)
     = Inr (key_of ''Post'' ''findMany'' None True) \<and>
   last_segment ''/api/model/post/findMany'' \<noteq> []"
  using getQueryKey_result [of "[]" "''Post''" None None None]
    getQueryKey_result [of "''/api/model/post/findMany''" "''Post''" None None "Some True"]
  by (simp add: key_of_def QUERY_KEY_PREFIX_def last_segment_def)

text \<open>
  The claim as stated fails on the model: no check is made on it, and a key is built with
  an empty model.
\<close>

theorem getQueryKey_empty_model_counterexample:
  "getQueryKey [] ''findMany'' None None None = Inr (key_of [] ''findMany'' None False) \<and>
   keyModel (key_of [] ''findMany'' None False) = []"
  by (simp add: getQueryKey_def key_of_def last_segment_def)

text \<open>A url that ends with a slash gives a key as well; its operation is the empty segment.\<close>

lemma getQueryKey_trailing_slash:
  "getQueryKey ''Post'' ''/api/model/post/'' None None None
     = Inr (key_of ''Post'' [] None False)"
  by (simp add: getQueryKey_def key_of_def last_segment_def)

subsection \<open>The invalidation predicate\<close>

text \<open>
  Claim C6. When the mutated models have been resolved, the predicate that
  \<open>getInvalidationPredicate\<close> returns answers true on every query key whose model is one of
  the mutated models, whatever the args and the flags of the key.
\<close>

theorem predicate_direct_hit:
  assumes "getMutatedModels rt model operation mutationArgs modelMeta = Inr mutatedModels"
    and "keyModel qk \<in> set mutatedModels"
  shows "snd (getInvalidationPredicate rt model operation mutationArgs modelMeta logging)
           = Inr (invalidationPredicate rt mutatedModels model operation modelMeta logging) \<and>
         snd (invalidationPredicate rt mutatedModels model operation modelMeta logging qk)"
  using assms
  by (simp add: getInvalidationPredicate_def io_bind_def io_call_def io_return_def
      invalidationPredicate_def Let_def)

theorem predicate_direct_hit_witness:
  "getMutatedModels example_runtime ''Post'' ''update'' None () = Inr [''Post''] \<and>
   keyModel (key_of ''Post'' ''findMany'' (Some include_posts) True) \<in> set [''Post''] \<and>
   snd (getInvalidationPredicate example_runtime ''Post'' ''update'' None () True)
     = Inr (invalidationPredicate example_runtime [''Post''] ''Post'' ''update'' () True) \<and>
   snd (invalidationPredicate example_runtime [''Post''] ''Post'' ''update'' () True
          (key_of ''Post'' ''findMany'' (Some include_posts) True))"
  using predicate_direct_hit [where rt = example_runtime and model = "''Post''"
      and operation = "''update''" and mutationArgs = None and modelMeta = "()"
      and mutatedModels = "[''Post'']" and logging = True
      and qk = "key_of ''Post'' ''findMany'' (Some include_posts) True"]
  by (simp add: example_runtime_def root_only_def key_of_def)

text \<open>
  Claim C5. On a query key whose args are absent, the predicate answers true if and only
  if the model of the key is one of the mutated models: nested reads are not consulted.
\<close>

theorem predicate_no_args:
  assumes "getMutatedModels rt model operation mutationArgs modelMeta = Inr mutatedModels"
    and "keyArgs qk = None"
  shows "snd (getInvalidationPredicate rt model operation mutationArgs modelMeta logging)
           = Inr (invalidationPredicate rt mutatedModels model operation modelMeta logging) \<and>
         (snd (invalidationPredicate rt mutatedModels model operation modelMeta logging qk)
            \<longleftrightarrow> keyModel qk \<in> set mutatedModels)"
  using assms
  by (simp add: getInvalidationPredicate_def io_bind_def io_call_def io_return_def
      invalidationPredicate_def Let_def)

theorem predicate_no_args_witness:
  "getMutatedModels example_runtime ''Post'' ''update'' None () = Inr [''Post''] \<and>
   keyArgs (key_of ''User'' ''findMany'' None False) = None \<and>
   keyArgs (key_of ''Post'' ''findMany'' None False) = None \<and>
   \<not> snd (invalidationPredicate example_runtime [''Post''] ''Post'' ''update'' () False
            (key_of ''User'' ''findMany'' None False)) \<and>
   snd (invalidationPredicate example_runtime [''Post''] ''Post'' ''update'' () False
          (key_of ''Post'' ''findMany'' None False))"
  using predicate_no_args [where rt = example_runtime and model = "''Post''"
      and operation = "''update''" and mutationArgs = None and modelMeta = "()"
      and mutatedModels = "[''Post'']" and logging = False
      and qk = "key_of ''User'' ''findMany'' None False"]
    predicate_no_args [where rt = example_runtime and model = "''Post''"
      and operation = "''update''" and mutationArgs = None and modelMeta = "()"
      and mutatedModels = "[''Post'']" and logging = False
      and qk = "key_of ''Post'' ''findMany'' None False"]
  by (simp add: example_runtime_def root_only_def key_of_def)

text \<open>
  Claim C9. The boolean of the predicate does not depend on the logging flag: built from
  the same mutated models and the same schema, the predicate with logging and the one
  without answer the same boolean on every query key, and \<open>getInvalidationPredicate\<close>
  fails with logging exactly when it fails without. The predicate is a function of its
  inputs, hence deterministic. (Values are JSON values and dates, on which the
  \<open>JSON.stringify\<close> of the log line cannot throw.)
\<close>

theorem predicate_independent_of_logging:
  "snd (invalidationPredicate rt mutatedModels model operation modelMeta True qk)
     = snd (invalidationPredicate rt mutatedModels model operation modelMeta False qk) \<and>
   map_sum id (\<lambda>p. snd (p qk))
       (snd (getInvalidationPredicate rt model operation mutationArgs modelMeta True))
     = map_sum id (\<lambda>p. snd (p qk))
       (snd (getInvalidationPredicate rt model operation mutationArgs modelMeta False))"
  by (cases "getMutatedModels rt model operation mutationArgs modelMeta")
     (simp_all add: getInvalidationPredicate_def io_bind_def io_call_def io_return_def
      invalidationPredicate_def Let_def)

text \<open>
  The scenario of the spec: after an update of \<open>Post\<close>, a cached query on \<open>User\<close> that
  includes its posts is invalidated, with a log line when logging is on; a cached query
  on the unrelated \<open>Tag\<close> is not.
\<close>

lemma predicate_scenario:
  "invalidationPredicate example_runtime [''Post''] ''Post'' ''update'' () True
       (key_of ''User'' ''findMany'' (Some include_posts) False)
     = ([Invalidating
           (JSON_stringify (key_json (key_of ''User'' ''findMany'' (Some include_posts) False)))
           ''Post'' ''update''], True) \<and>
   invalidationPredicate example_runtime [''Post''] ''Post'' ''update'' () True
       (key_of ''Tag'' ''findMany'' (Some include_posts) False)
     = ([], False)"
  by (simp add: invalidationPredicate_def findNestedRead_def example_runtime_def
      read_models_def key_of_def include_posts_def)

subsection \<open>The optimistic-update scan\<close>

lemma calls_bind_cong:
  "(\<And>x. calls (f x) = calls (g x)) \<Longrightarrow> calls (io_bind m f) = calls (io_bind m g)"
  by (auto simp: calls_def io_bind_def split: prod.splits sum.splits) (metis fst_conv snd_conv)+

lemma calls_log_bind: "calls (io_bind (io_log logging msg) (\<lambda>_. r)) = calls r"
  by (auto simp: calls_def io_bind_def io_log_def split: prod.splits sum.splits)

lemma setCache_origin:
  "SetCache k d \<in> set (fst (optimisticUpdate rt mutationModel mutationOp mutationArgs modelMeta
       queryCache setCache logging))
   \<Longrightarrow> \<exists>c \<in> set queryCache. queryKey c = k \<and> \<not> truthy (stateError (state c))"
proof (induction queryCache)
  case Nil
  then show ?case by (simp add: io_return_def)
next
  case (Cons c rest)
  let ?rest = "optimisticUpdate rt mutationModel mutationOp mutationArgs modelMeta rest setCache logging"
  show ?case
  proof (cases "SetCache k d \<in> set (fst ?rest)")
    case True
    with Cons.IH show ?thesis by auto
  next
    case False
    with Cons.prems have "queryKey c = k \<and> \<not> truthy (stateError (state c))"
      by (auto simp: Let_def io_bind_def io_log_def io_call_def io_return_def
          split: if_splits prod.splits sum.splits option.splits)
    then show ?thesis by simp
  qed
qed

lemma skip_error_entry:
  assumes "cacheItem \<in> set queryCache" and "truthy (stateError (state cacheItem))"
  shows "calls (optimisticUpdate rt mutationModel mutationOp mutationArgs modelMeta
                  queryCache setCache logging)
         = calls (optimisticUpdate rt mutationModel mutationOp mutationArgs modelMeta
                  (remove1 cacheItem queryCache) setCache logging)"
  using assms(1)
proof (induction queryCache)
  case Nil
  then show ?case by simp
next
  case (Cons c rest)
  show ?case
  proof (cases "c = cacheItem")
    case True
    with assms(2) show ?thesis
      by (simp add: calls_log_bind)
  next
    case False
    with Cons have IH: "calls (optimisticUpdate rt mutationModel mutationOp mutationArgs modelMeta
                  rest setCache logging)
         = calls (optimisticUpdate rt mutationModel mutationOp mutationArgs modelMeta
                  (remove1 cacheItem rest) setCache logging)"
      by simp
    from False show ?thesis
      by (auto simp add: Let_def IH intro!: calls_bind_cong)
  qed
qed

lemma replay_keeps_entry:
  "\<forall>d. SetCache (queryKey c) d \<notin> set es \<Longrightarrow> c \<in> set store
   \<Longrightarrow> c \<in> set (replay_setCache upd es store)"
proof (induction upd es store rule: replay_setCache.induct)
  case (2 upd k d es store)
  then have "k \<noteq> queryKey c" by auto
  with 2 show ?case
    by (auto simp: set_cache_entry_def)
qed auto

text \<open>
  Claim C7. The scan skips every cache entry that holds an error. The keys of a cache
  identify its entries. For an entry with a truthy error, \<open>setCache\<close> is never called
  with its key, and the scan makes the same calls of the merge function and of \<open>setCache\<close>,
  in the same order and with the same outcome, as on the cache without that entry: the
  merge function is not invoked on it. The scan writes to the cache through \<open>setCache\<close>
  only, so the store that the scan leaves behind still holds the entry as it was, its
  error included.
\<close>

theorem optimisticUpdate_skips_error_entries:
  assumes "cacheItem \<in> set queryCache"
    and "truthy (stateError (state cacheItem))"
    and "distinct (map queryKey queryCache)"
  shows "(\<forall>d. SetCache (queryKey cacheItem) d \<notin> set (fst (optimisticUpdate rt mutationModel
             mutationOp mutationArgs modelMeta queryCache setCache logging))) \<and>
         calls (optimisticUpdate rt mutationModel mutationOp mutationArgs modelMeta
                  queryCache setCache logging)
           = calls (optimisticUpdate rt mutationModel mutationOp mutationArgs modelMeta
                  (remove1 cacheItem queryCache) setCache logging) \<and>
         cacheItem \<in> set (replay_setCache upd
                  (fst (optimisticUpdate rt mutationModel mutationOp mutationArgs modelMeta
                          queryCache setCache logging))
                  queryCache)"
proof -
  have never: "\<forall>d. SetCache (queryKey cacheItem) d \<notin> set (fst (optimisticUpdate rt mutationModel
             mutationOp mutationArgs modelMeta queryCache setCache logging))"
  proof (intro allI notI)
    fix d
    assume "SetCache (queryKey cacheItem) d \<in> set (fst (optimisticUpdate rt mutationModel
             mutationOp mutationArgs modelMeta queryCache setCache logging))"
    from setCache_origin [OF this]
    obtain c where c: "c \<in> set queryCache" "queryKey c = queryKey cacheItem"
        "\<not> truthy (stateError (state c))"
      by auto
    with assms(1,3) have "c = cacheItem"
      by (meson distinct_map inj_onD)
    with c(3) assms(2) show False by simp
  qed
  have same: "calls (optimisticUpdate rt mutationModel mutationOp mutationArgs modelMeta
                  queryCache setCache logging)
         = calls (optimisticUpdate rt mutationModel mutationOp mutationArgs modelMeta
                  (remove1 cacheItem queryCache) setCache logging)"
    using skip_error_entry [OF assms(1,2)] .
  have kept: "cacheItem \<in> set (replay_setCache upd
                  (fst (optimisticUpdate rt mutationModel mutationOp mutationArgs modelMeta
                          queryCache setCache logging))
                  queryCache)"
    using replay_keeps_entry [OF never assms(1)] .
  from never same kept show ?thesis by blast
qed

theorem optimisticUpdate_skips_error_entries_witness:
  "errored_item \<in> set example_cache \<and>
   truthy (stateError (state errored_item)) \<and>
   distinct (map queryKey example_cache) \<and>
   optimisticUpdate example_runtime ''Post'' ''create'' (Some create_args) () example_cache
       set_cache_ok False
     = ([ApplyMutation ''Post'' ''findMany'' (Some (JArr [JObj [(''id'', JNum 1)]]))
           ''Post'' ''create'' (Some create_args),
         SetCache (queryKey healthy_item) (JArr [JObj [(''id'', JNum 1)], JObj [(''id'', JNum 2)]])],
        Inr ()) \<and>
   SetCache (queryKey errored_item) (JArr [JObj [(''id'', JNum 2)]])
     \<notin> set (fst (optimisticUpdate example_runtime ''Post'' ''create'' (Some create_args) ()
                    example_cache set_cache_ok False)) \<and>
   calls (optimisticUpdate example_runtime ''Post'' ''create'' (Some create_args) ()
            example_cache set_cache_ok False)
     = calls (optimisticUpdate example_runtime ''Post'' ''create'' (Some create_args) ()
                (remove1 errored_item example_cache) set_cache_ok False) \<and>
   replay_setCache write_data
       (fst (optimisticUpdate example_runtime ''Post'' ''create'' (Some create_args) ()
               example_cache set_cache_ok False))
       example_cache
     = [errored_item,
        healthy_item \<lparr> state := \<lparr> stateData =
                                      Some (JArr [JObj [(''id'', JNum 1)], JObj [(''id'', JNum 2)]]),
                                    stateError = None \<rparr> \<rparr>]"
  using optimisticUpdate_skips_error_entries [where cacheItem = errored_item
      and queryCache = example_cache and rt = example_runtime and mutationModel = "''Post''"
      and mutationOp = "''create''" and mutationArgs = "Some create_args" and modelMeta = "()"
      and setCache = set_cache_ok and logging = False and upd = write_data]
  by (simp add: example_cache_def errored_item_def healthy_item_def key_of_def
      example_runtime_def append_created_def create_args_def set_cache_ok_def
      io_bind_def io_log_def io_call_def io_return_def calls_def
      set_cache_entry_def write_data_def)

subsection \<open>Chaining of the caller's hooks\<close>

text \<open>
  Claim C8, as amended. For each phase that \<open>setupInvalidation\<close> and
  \<open>setupOptimisticUpdate\<close> wrap (\<open>onSuccess\<close>; \<open>onMutate\<close> and \<open>onSettled\<close>): when the caller
  supplied a hook for the phase and the own logic of the phase completes without
  rejecting, the wrapped phase performs its own logic first, then invokes the original
  hook with the same arguments, and returns what the original hook returns. When the own
  logic rejects (the resolution of the mutated models, the invalidation, or the optimistic
  scan with its merge and cache writes), the wrapped phase rejects with the same error
  after the effects of its own logic alone: the original hook, whatever the caller
  supplied, is not invoked.
\<close>

theorem wrapped_hooks_chain:
  "(onSuccess options = Some origOnSuccess \<longrightarrow>
    getInvalidationPredicate rt model operation (arg args 1) modelMeta logging
      = (es, Inr predicate) \<longrightarrow>
    invalidate predicate = Inr () \<longrightarrow>
    call_hook (onSuccess (setupInvalidation rt model operation modelMeta options invalidate
                 logging)) args
      = (es @ [Invalidate predicate] @ fst (origOnSuccess args), snd (origOnSuccess args))) \<and>
   (onMutate options = Some origOnMutate \<longrightarrow>
    optimisticUpdate rt model operation (arg args 0) modelMeta queryCache setCache logging
      = (es', Inr ()) \<longrightarrow>
    call_hook (onMutate (setupOptimisticUpdate rt model operation modelMeta options queryCache
                 setCache invalidate' logging)) args
      = (es' @ fst (origOnMutate args), snd (origOnMutate args))) \<and>
   (onSettled options = Some origOnSettled \<longrightarrow>
    invalidate' = None \<longrightarrow>
    call_hook (onSettled (setupOptimisticUpdate rt model operation modelMeta options queryCache
                 setCache invalidate' logging)) args
      = origOnSettled args) \<and>
   (onSettled options = Some origOnSettled \<longrightarrow>
    invalidate' = Some invalidate \<longrightarrow>
    getInvalidationPredicate rt model operation (arg args 2) modelMeta logging
      = (es'', Inr predicate') \<longrightarrow>
    invalidate predicate' = Inr () \<longrightarrow>
    call_hook (onSettled (setupOptimisticUpdate rt model operation modelMeta options queryCache
                 setCache invalidate' logging)) args
      = (es'' @ [Invalidate predicate'] @ fst (origOnSettled args), snd (origOnSettled args))) \<and>
   (getInvalidationPredicate rt model operation (arg args 1) modelMeta logging
      = (es, Inl e) \<longrightarrow>
    call_hook (onSuccess (setupInvalidation rt model operation modelMeta options invalidate
                 logging)) args
      = (es, Inl e)) \<and>
   (getInvalidationPredicate rt model operation (arg args 1) modelMeta logging
      = (es, Inr predicate) \<longrightarrow>
    invalidate predicate = Inl e \<longrightarrow>
    call_hook (onSuccess (setupInvalidation rt model operation modelMeta options invalidate
                 logging)) args
      = (es @ [Invalidate predicate], Inl e)) \<and>
   (optimisticUpdate rt model operation (arg args 0) modelMeta queryCache setCache logging
      = (es', Inl e) \<longrightarrow>
    call_hook (onMutate (setupOptimisticUpdate rt model operation modelMeta options queryCache
                 setCache invalidate' logging)) args
      = (es', Inl e)) \<and>
   (invalidate' = Some invalidate \<longrightarrow>
    getInvalidationPredicate rt model operation (arg args 2) modelMeta logging
      = (es'', Inl e) \<longrightarrow>
    call_hook (onSettled (setupOptimisticUpdate rt model operation modelMeta options queryCache
                 setCache invalidate' logging)) args
      = (es'', Inl e)) \<and>
   (invalidate' = Some invalidate \<longrightarrow>
    getInvalidationPredicate rt model operation (arg args 2) modelMeta logging
      = (es'', Inr predicate') \<longrightarrow>
    invalidate predicate' = Inl e \<longrightarrow>
    call_hook (onSettled (setupOptimisticUpdate rt model operation modelMeta options queryCache
                 setCache invalidate' logging)) args
      = (es'' @ [Invalidate predicate'], Inl e))"
  by (auto simp add: setupInvalidation_def setupOptimisticUpdate_def Let_def
      io_bind_def io_call_def io_return_def split: prod.splits sum.splits)

theorem wrapped_hooks_chain_witness:
  "onSuccess example_options = Some (marking_hook ''onSuccess'' (JStr ''succeeded'')) \<and>
   onMutate example_options = Some (marking_hook ''onMutate'' (JStr ''context'')) \<and>
   onSettled example_options = Some (marking_hook ''onSettled'' (JStr ''settled'')) \<and>
   call_hook (onSuccess (setupInvalidation example_runtime ''Post'' ''create'' () example_options
                invalidate_ok False))
       [Some (JObj [(''id'', JNum 2)]), Some create_args, None]
     = ([GetMutatedModels ''Post'' ''create'' (Some create_args),
         Invalidate (invalidationPredicate example_runtime [''Post''] ''Post'' ''create'' () False),
         Custom ''onSuccess''],
        Inr (Some (JStr ''succeeded''))) \<and>
   call_hook (onMutate (setupOptimisticUpdate example_runtime ''Post'' ''create'' () example_options
                example_cache set_cache_ok None False))
       [Some create_args]
     = ([ApplyMutation ''Post'' ''findMany'' (Some (JArr [JObj [(''id'', JNum 1)]]))
           ''Post'' ''create'' (Some create_args),
         SetCache (queryKey healthy_item) (JArr [JObj [(''id'', JNum 1)], JObj [(''id'', JNum 2)]]),
         Custom ''onMutate''],
        Inr (Some (JStr ''context''))) \<and>
   call_hook (onSettled (setupOptimisticUpdate example_runtime ''Post'' ''create'' ()
                example_options example_cache set_cache_ok None False))
       [Some (JObj [(''id'', JNum 2)]), Some JNull, Some create_args, None]
     = ([Custom ''onSettled''], Inr (Some (JStr ''settled''))) \<and>
   call_hook (onSettled (setupOptimisticUpdate example_runtime ''Post'' ''create'' ()
                example_options example_cache set_cache_ok (Some invalidate_ok) False))
       [Some (JObj [(''id'', JNum 2)]), Some JNull, Some create_args, None]
     = ([GetMutatedModels ''Post'' ''create'' (Some create_args),
         Invalidate (invalidationPredicate example_runtime [''Post''] ''Post'' ''create'' () False),
         Custom ''onSettled''],
        Inr (Some (JStr ''settled''))) \<and>
   call_hook (onSuccess (setupInvalidation unresolving_runtime ''Post'' ''create'' () example_options
                invalidate_ok False))
       [Some (JObj [(''id'', JNum 2)]), Some create_args, None]
     = ([GetMutatedModels ''Post'' ''create'' (Some create_args)],
        Inl (Rejected (JStr ''resolution failed''))) \<and>
   call_hook (onSuccess (setupInvalidation example_runtime ''Post'' ''create'' () example_options
                invalidate_failing False))
       [Some (JObj [(''id'', JNum 2)]), Some create_args, None]
     = ([GetMutatedModels ''Post'' ''create'' (Some create_args),
         Invalidate (invalidationPredicate example_runtime [''Post''] ''Post'' ''create'' () False)],
        Inl (Rejected (JStr ''invalidation failed''))) \<and>
   call_hook (onMutate (setupOptimisticUpdate example_runtime ''Post'' ''create'' () example_options
                example_cache set_cache_failing None False))
       [Some create_args]
     = ([ApplyMutation ''Post'' ''findMany'' (Some (JArr [JObj [(''id'', JNum 1)]]))
           ''Post'' ''create'' (Some create_args),
         SetCache (queryKey healthy_item) (JArr [JObj [(''id'', JNum 1)], JObj [(''id'', JNum 2)]])],
        Inl (Rejected (JStr ''cache write failed''))) \<and>
   call_hook (onSettled (setupOptimisticUpdate unresolving_runtime ''Post'' ''create'' ()
                example_options example_cache set_cache_ok (Some invalidate_ok) False))
       [Some (JObj [(''id'', JNum 2)]), Some JNull, Some create_args, None]
     = ([GetMutatedModels ''Post'' ''create'' (Some create_args)],
        Inl (Rejected (JStr ''resolution failed''))) \<and>
   call_hook (onSettled (setupOptimisticUpdate example_runtime ''Post'' ''create'' ()
                example_options example_cache set_cache_ok (Some invalidate_failing) False))
       [Some (JObj [(''id'', JNum 2)]), Some JNull, Some create_args, None]
     = ([GetMutatedModels ''Post'' ''create'' (Some create_args),
         Invalidate (invalidationPredicate example_runtime [''Post''] ''Post'' ''create'' () False)],
        Inl (Rejected (JStr ''invalidation failed'')))"
proof -
  have s1: "call_hook (onSuccess (setupInvalidation example_runtime ''Post'' ''create'' () example_options
                invalidate_ok False))
       [Some (JObj [(''id'', JNum 2)]), Some create_args, None]
     = ([GetMutatedModels ''Post'' ''create'' (Some create_args),
         Invalidate (invalidationPredicate example_runtime [''Post''] ''Post'' ''create'' () False),
         Custom ''onSuccess''],
        Inr (Some (JStr ''succeeded'')))"
    using wrapped_hooks_chain [where options = example_options and model = "''Post''" and operation = "''create''"
      and modelMeta = "()" and logging = False and queryCache = example_cache
      and rt = example_runtime and invalidate = invalidate_ok and args = "[Some (JObj [(''id'', JNum 2)]), Some create_args, None]"
      and origOnSuccess = "marking_hook ''onSuccess'' (JStr ''succeeded'')"
      and es = "[GetMutatedModels ''Post'' ''create'' (Some create_args)]"
      and predicate = "invalidationPredicate example_runtime [''Post''] ''Post'' ''create'' () False"]
    by (simp add: example_options_def marking_hook_def invalidate_ok_def invalidate_failing_def
        set_cache_ok_def set_cache_failing_def arg_def getInvalidationPredicate_def
        io_bind_def io_call_def io_return_def io_log_def
        example_runtime_def unresolving_runtime_def root_only_def resolver_failing_def
        example_cache_def errored_item_def healthy_item_def key_of_def
        append_created_def create_args_def)
  have s2: "call_hook (onMutate (setupOptimisticUpdate example_runtime ''Post'' ''create'' () example_options
                example_cache set_cache_ok None False))
       [Some create_args]
     = ([ApplyMutation ''Post'' ''findMany'' (Some (JArr [JObj [(''id'', JNum 1)]]))
           ''Post'' ''create'' (Some create_args),
         SetCache (queryKey healthy_item) (JArr [JObj [(''id'', JNum 1)], JObj [(''id'', JNum 2)]]),
         Custom ''onMutate''],
        Inr (Some (JStr ''context'')))"
    using wrapped_hooks_chain [where options = example_options and model = "''Post''" and operation = "''create''"
      and modelMeta = "()" and logging = False and queryCache = example_cache
      and rt = example_runtime and setCache = set_cache_ok and invalidate' = None and args = "[Some create_args]"
      and origOnMutate = "marking_hook ''onMutate'' (JStr ''context'')"
      and es' = "[ApplyMutation ''Post'' ''findMany'' (Some (JArr [JObj [(''id'', JNum 1)]]))
           ''Post'' ''create'' (Some create_args),
         SetCache (queryKey healthy_item) (JArr [JObj [(''id'', JNum 1)], JObj [(''id'', JNum 2)]])]"]
    by (simp add: example_options_def marking_hook_def invalidate_ok_def invalidate_failing_def
        set_cache_ok_def set_cache_failing_def arg_def getInvalidationPredicate_def
        io_bind_def io_call_def io_return_def io_log_def
        example_runtime_def unresolving_runtime_def root_only_def resolver_failing_def
        example_cache_def errored_item_def healthy_item_def key_of_def
        append_created_def create_args_def)
  have s3: "call_hook (onSettled (setupOptimisticUpdate example_runtime ''Post'' ''create'' ()
                example_options example_cache set_cache_ok None False))
       [Some (JObj [(''id'', JNum 2)]), Some JNull, Some create_args, None]
     = ([Custom ''onSettled''], Inr (Some (JStr ''settled'')))"
    using wrapped_hooks_chain [where options = example_options and model = "''Post''" and operation = "''create''"
      and modelMeta = "()" and logging = False and queryCache = example_cache
      and rt = example_runtime and setCache = set_cache_ok and invalidate' = None and args = "[Some (JObj [(''id'', JNum 2)]), Some JNull, Some create_args, None]"
      and origOnSettled = "marking_hook ''onSettled'' (JStr ''settled'')"]
    by (simp add: example_options_def marking_hook_def invalidate_ok_def invalidate_failing_def
        set_cache_ok_def set_cache_failing_def arg_def getInvalidationPredicate_def
        io_bind_def io_call_def io_return_def io_log_def
        example_runtime_def unresolving_runtime_def root_only_def resolver_failing_def
        example_cache_def errored_item_def healthy_item_def key_of_def
        append_created_def create_args_def)
  have s4: "call_hook (onSettled (setupOptimisticUpdate example_runtime ''Post'' ''create'' ()
                example_options example_cache set_cache_ok (Some invalidate_ok) False))
       [Some (JObj [(''id'', JNum 2)]), Some JNull, Some create_args, None]
     = ([GetMutatedModels ''Post'' ''create'' (Some create_args),
         Invalidate (invalidationPredicate example_runtime [''Post''] ''Post'' ''create'' () False),
         Custom ''onSettled''],
        Inr (Some (JStr ''settled'')))"
    using wrapped_hooks_chain [where options = example_options and model = "''Post''" and operation = "''create''"
      and modelMeta = "()" and logging = False and queryCache = example_cache
      and rt = example_runtime and setCache = set_cache_ok and invalidate = invalidate_ok
      and invalidate' = "Some invalidate_ok" and args = "[Some (JObj [(''id'', JNum 2)]), Some JNull, Some create_args, None]"
      and origOnSettled = "marking_hook ''onSettled'' (JStr ''settled'')"
      and es'' = "[GetMutatedModels ''Post'' ''create'' (Some create_args)]"
      and predicate' = "invalidationPredicate example_runtime [''Post''] ''Post'' ''create'' () False"]
    by (simp add: example_options_def marking_hook_def invalidate_ok_def invalidate_failing_def
        set_cache_ok_def set_cache_failing_def arg_def getInvalidationPredicate_def
        io_bind_def io_call_def io_return_def io_log_def
        example_runtime_def unresolving_runtime_def root_only_def resolver_failing_def
        example_cache_def errored_item_def healthy_item_def key_of_def
        append_created_def create_args_def)
  have f1: "call_hook (onSuccess (setupInvalidation unresolving_runtime ''Post'' ''create'' () example_options
                invalidate_ok False))
       [Some (JObj [(''id'', JNum 2)]), Some create_args, None]
     = ([GetMutatedModels ''Post'' ''create'' (Some create_args)],
        Inl (Rejected (JStr ''resolution failed'')))"
    using wrapped_hooks_chain [where options = example_options and model = "''Post''" and operation = "''create''"
      and modelMeta = "()" and logging = False and queryCache = example_cache
      and rt = unresolving_runtime and invalidate = invalidate_ok and args = "[Some (JObj [(''id'', JNum 2)]), Some create_args, None]"
      and es = "[GetMutatedModels ''Post'' ''create'' (Some create_args)]"
      and e = "Rejected (JStr ''resolution failed'')"]
    by (simp add: example_options_def marking_hook_def invalidate_ok_def invalidate_failing_def
        set_cache_ok_def set_cache_failing_def arg_def getInvalidationPredicate_def
        io_bind_def io_call_def io_return_def io_log_def
        example_runtime_def unresolving_runtime_def root_only_def resolver_failing_def
        example_cache_def errored_item_def healthy_item_def key_of_def
        append_created_def create_args_def)
  have f2: "call_hook (onSuccess (setupInvalidation example_runtime ''Post'' ''create'' () example_options
                invalidate_failing False))
       [Some (JObj [(''id'', JNum 2)]), Some create_args, None]
     = ([GetMutatedModels ''Post'' ''create'' (Some create_args),
         Invalidate (invalidationPredicate example_runtime [''Post''] ''Post'' ''create'' () False)],
        Inl (Rejected (JStr ''invalidation failed'')))"
    using wrapped_hooks_chain [where options = example_options and model = "''Post''" and operation = "''create''"
      and modelMeta = "()" and logging = False and queryCache = example_cache
      and rt = example_runtime and invalidate = invalidate_failing and args = "[Some (JObj [(''id'', JNum 2)]), Some create_args, None]"
      and es = "[GetMutatedModels ''Post'' ''create'' (Some create_args)]"
      and predicate = "invalidationPredicate example_runtime [''Post''] ''Post'' ''create'' () False"
      and e = "Rejected (JStr ''invalidation failed'')"]
    by (simp add: example_options_def marking_hook_def invalidate_ok_def invalidate_failing_def
        set_cache_ok_def set_cache_failing_def arg_def getInvalidationPredicate_def
        io_bind_def io_call_def io_return_def io_log_def
        example_runtime_def unresolving_runtime_def root_only_def resolver_failing_def
        example_cache_def errored_item_def healthy_item_def key_of_def
        append_created_def create_args_def)
  have f3: "call_hook (onMutate (setupOptimisticUpdate example_runtime ''Post'' ''create'' () example_options
                example_cache set_cache_failing None False))
       [Some create_args]
     = ([ApplyMutation ''Post'' ''findMany'' (Some (JArr [JObj [(''id'', JNum 1)]]))
           ''Post'' ''create'' (Some create_args),
         SetCache (queryKey healthy_item) (JArr [JObj [(''id'', JNum 1)], JObj [(''id'', JNum 2)]])],
        Inl (Rejected (JStr ''cache write failed'')))"
    using wrapped_hooks_chain [where options = example_options and model = "''Post''" and operation = "''create''"
      and modelMeta = "()" and logging = False and queryCache = example_cache
      and rt = example_runtime and setCache = set_cache_failing and invalidate' = None and args = "[Some create_args]"
      and es' = "[ApplyMutation ''Post'' ''findMany'' (Some (JArr [JObj [(''id'', JNum 1)]]))
           ''Post'' ''create'' (Some create_args),
         SetCache (queryKey healthy_item) (JArr [JObj [(''id'', JNum 1)], JObj [(''id'', JNum 2)]])]"
      and e = "Rejected (JStr ''cache write failed'')"]
    by (simp add: example_options_def marking_hook_def invalidate_ok_def invalidate_failing_def
        set_cache_ok_def set_cache_failing_def arg_def getInvalidationPredicate_def
        io_bind_def io_call_def io_return_def io_log_def
        example_runtime_def unresolving_runtime_def root_only_def resolver_failing_def
        example_cache_def errored_item_def healthy_item_def key_of_def
        append_created_def create_args_def)
  have f4: "call_hook (onSettled (setupOptimisticUpdate unresolving_runtime ''Post'' ''create'' ()
                example_options example_cache set_cache_ok (Some invalidate_ok) False))
       [Some (JObj [(''id'', JNum 2)]), Some JNull, Some create_args, None]
     = ([GetMutatedModels ''Post'' ''create'' (Some create_args)],
        Inl (Rejected (JStr ''resolution failed'')))"
    using wrapped_hooks_chain [where options = example_options and model = "''Post''" and operation = "''create''"
      and modelMeta = "()" and logging = False and queryCache = example_cache
      and rt = unresolving_runtime and setCache = set_cache_ok and invalidate = invalidate_ok
      and invalidate' = "Some invalidate_ok" and args = "[Some (JObj [(''id'', JNum 2)]), Some JNull, Some create_args, None]"
      and es'' = "[GetMutatedModels ''Post'' ''create'' (Some create_args)]"
      and e = "Rejected (JStr ''resolution failed'')"]
    by (simp add: example_options_def marking_hook_def invalidate_ok_def invalidate_failing_def
        set_cache_ok_def set_cache_failing_def arg_def getInvalidationPredicate_def
        io_bind_def io_call_def io_return_def io_log_def
        example_runtime_def unresolving_runtime_def root_only_def resolver_failing_def
        example_cache_def errored_item_def healthy_item_def key_of_def
        append_created_def create_args_def)
  have f5: "call_hook (onSettled (setupOptimisticUpdate example_runtime ''Post'' ''create'' ()
                example_options example_cache set_cache_ok (Some invalidate_failing) False))
       [Some (JObj [(''id'', JNum 2)]), Some JNull, Some create_args, None]
     = ([GetMutatedModels ''Post'' ''create'' (Some create_args),
         Invalidate (invalidationPredicate example_runtime [''Post''] ''Post'' ''create'' () False)],
        Inl (Rejected (JStr ''invalidation failed'')))"
    using wrapped_hooks_chain [where options = example_options and model = "''Post''" and operation = "''create''"
      and modelMeta = "()" and logging = False and queryCache = example_cache
      and rt = example_runtime and setCache = set_cache_ok and invalidate = invalidate_failing
      and invalidate' = "Some invalidate_failing" and args = "[Some (JObj [(''id'', JNum 2)]), Some JNull, Some create_args, None]"
      and es'' = "[GetMutatedModels ''Post'' ''create'' (Some create_args)]"
      and predicate' = "invalidationPredicate example_runtime [''Post''] ''Post'' ''create'' () False"
      and e = "Rejected (JStr ''invalidation failed'')"]
    by (simp add: example_options_def marking_hook_def invalidate_ok_def invalidate_failing_def
        set_cache_ok_def set_cache_failing_def arg_def getInvalidationPredicate_def
        io_bind_def io_call_def io_return_def io_log_def
        example_runtime_def unresolving_runtime_def root_only_def resolver_failing_def
        example_cache_def errored_item_def healthy_item_def key_of_def
        append_created_def create_args_def)
  show ?thesis
    using s1 s2 s3 s4 f1 f2 f3 f4 f5 by (simp add: example_options_def)
qed

text \<open>
  The claim as stated fails when the own logic of a phase rejects: here the invalidation
  rejects, the wrapped \<open>onSuccess\<close> rejects with it, and the caller's hook is not invoked.
\<close>

theorem wrapped_hooks_chain_counterexample:
  "onSuccess example_options = Some (marking_hook ''onSuccess'' (JStr ''succeeded'')) \<and>
   call_hook (onSuccess (setupInvalidation example_runtime ''Post'' ''create'' () example_options
                invalidate_failing False))
       [Some (JObj [(''id'', JNum 2)]), Some create_args, None]
     = ([GetMutatedModels ''Post'' ''create'' (Some create_args),
         Invalidate (invalidationPredicate example_runtime [''Post''] ''Post'' ''create'' () False)],
        Inl (Rejected (JStr ''invalidation failed''))) \<and>
   Custom ''onSuccess''
     \<notin> set (fst (call_hook (onSuccess (setupInvalidation example_runtime ''Post'' ''create'' ()
                   example_options invalidate_failing False))
                 [Some (JObj [(''id'', JNum 2)]), Some create_args, None])) \<and>
   snd (call_hook (onSuccess (setupInvalidation example_runtime ''Post'' ''create'' ()
                   example_options invalidate_failing False))
          [Some (JObj [(''id'', JNum 2)]), Some create_args, None])
     \<noteq> snd (marking_hook ''onSuccess'' (JStr ''succeeded'')
          [Some (JObj [(''id'', JNum 2)]), Some create_args, None])"
  by (simp add: setupInvalidation_def example_options_def marking_hook_def invalidate_failing_def
      arg_def getInvalidationPredicate_def io_bind_def io_call_def io_return_def
      example_runtime_def root_only_def)

subsection \<open>Invalidation with optimistic update\<close>

lemma mutationFn_useModelMutation:
  "mutationFn (useModelMutation rt queryClient contextLogging model httpMethod url modelMeta
       options fetch invalidateQueries' checkReadBack optimisticUpdate') data
     = fetcher rt
         (if httpMethod = DELETE then makeUrl rt url (Some data)
          else \<lparr> urlPath = url, urlQ = None, urlMeta = None \<rparr>)
         (Some (if httpMethod \<noteq> DELETE
                then \<lparr> reqMethod = httpMethod,
                       reqHeaders = [(''content-type'', ''application/json'')],
                       reqBody = Some (marshal rt data) \<rparr>
                else \<lparr> reqMethod = httpMethod, reqHeaders = [], reqBody = None \<rparr>))
         fetch checkReadBack"
  by (simp add: useModelMutation_def setupInvalidation_def setupOptimisticUpdate_def Let_def)

text \<open>
  Claim C10. A mutation is set up by \<open>useModelMutation\<close> with query invalidation on (the
  default) and optimistic update on, for a url whose last segment names the operation.
  When the mutation succeeds (the optimistic scan, the caller's hooks, the request, the
  resolution of the mutated models and the invalidation all complete), its effects are, in
  order: the optimistic scan and the caller's \<open>onMutate\<close>; the request; in the on-success
  phase, a resolution of the mutated models and an invalidation with the predicate built
  from them, then the caller's \<open>onSuccess\<close>; in the on-settle phase, a second resolution
  of the mutated models from the same variables and a second invalidation with the
  predicate built from them, then the caller's \<open>onSettled\<close>. The two predicates are
  built independently and over the same mutated models.
\<close>

theorem mutation_invalidates_twice:
  assumes "operation = last_segment url" and "operation \<noteq> []"
    and "invalidateQueries' \<noteq> Some False"
    and "optimisticUpdate' = Some True"
    and "logging = (contextLogging = Some True)"
    and "predicate = invalidationPredicate rt mutatedModels model operation modelMeta logging"
    and "finalOptions = useModelMutation rt queryClient contextLogging model httpMethod url modelMeta
           options fetch invalidateQueries' checkReadBack optimisticUpdate'"
    and "optimisticUpdate rt model operation (Some variables) modelMeta (getAll queryClient)
           (setQueryData queryClient) logging = (es_optimistic, Inr ())"
    and "call_hook (case options of None \<Rightarrow> None | Some opts \<Rightarrow> onMutate opts) [Some variables]
           = (es_mutate, Inr ctx)"
    and "mutationFn finalOptions variables = (es_request, Inr data)"
    and "getMutatedModels rt model operation (Some variables) modelMeta = Inr mutatedModels"
    and "invalidateQueries queryClient predicate = Inr ()"
    and "call_hook (case options of None \<Rightarrow> None | Some opts \<Rightarrow> onSuccess opts)
           [data, Some variables, ctx] = (es_success, Inr ret_success)"
    and "call_hook (case options of None \<Rightarrow> None | Some opts \<Rightarrow> onSettled opts)
           [data, Some JNull, Some variables, ctx] = (es_settled, Inr ret_settled)"
  shows "mutate finalOptions variables
           = (es_optimistic @ es_mutate @ es_request @
              [GetMutatedModels model operation (Some variables), Invalidate predicate] @
              es_success @
              [GetMutatedModels model operation (Some variables), Invalidate predicate] @
              es_settled,
              Inr data)"
proof -
  have inv: "invalidateQueries' = None \<or> invalidateQueries' = Some True"
    using assms(3) by (cases invalidateQueries') auto
  have log: "(case contextLogging of None \<Rightarrow> False | Some b \<Rightarrow> b) = logging"
    using assms(5) by (cases contextLogging) auto
  have sq: "(\<lambda>qk data. setQueryData queryClient qk data) = setQueryData queryClient"
    by simp
  have gp: "getInvalidationPredicate rt model operation (Some variables) modelMeta logging
              = ([GetMutatedModels model operation (Some variables)], Inr predicate)"
    using assms(6,11)
    by (simp add: getInvalidationPredicate_def io_bind_def io_call_def io_return_def)
  show ?thesis
    using inv assms(1,2,4,7-10,12-14) gp
    apply (simp add: useModelMutation_def Let_def log)
    apply (elim disjE)
    apply (simp_all add: mutate_def setupInvalidation_def setupOptimisticUpdate_def
      io_bind_def io_catch_def io_call_def io_return_def arg_def Let_def
      split: prod.splits sum.splits)
    done
qed

theorem mutation_invalidates_twice_witness:
  "last_segment ''/api/model/post/create'' = ''create'' \<and>
   getMutatedModels example_runtime ''Post'' ''create'' (Some create_args) () = Inr [''Post''] \<and>
   mutate (useModelMutation example_runtime example_client None ''Post'' POST
             ''/api/model/post/create'' () (Some example_options)
             (Some (fetch_returning created_response)) (Some True) None (Some True))
       create_args
     = ([ApplyMutation ''Post'' ''findMany'' (Some (JArr [JObj [(''id'', JNum 1)]]))
           ''Post'' ''create'' (Some create_args),
         SetCache (queryKey healthy_item) (JArr [JObj [(''id'', JNum 1)], JObj [(''id'', JNum 2)]]),
         Custom ''onMutate'',
         create_request,
         GetMutatedModels ''Post'' ''create'' (Some create_args),
         Invalidate (invalidationPredicate example_runtime [''Post''] ''Post'' ''create'' () False),
         Custom ''onSuccess'',
         GetMutatedModels ''Post'' ''create'' (Some create_args),
         Invalidate (invalidationPredicate example_runtime [''Post''] ''Post'' ''create'' () False),
         Custom ''onSettled''],
        Inr (Some (JObj [(''id'', JNum 2)])))"
proof -
  have seg: "''create'' = last_segment ''/api/model/post/create''"
    by (simp add: last_segment_def)
  have scan: "optimisticUpdate example_runtime ''Post'' ''create'' (Some create_args) ()
      (getAll example_client) (setQueryData example_client) False
    = ([ApplyMutation ''Post'' ''findMany'' (Some (JArr [JObj [(''id'', JNum 1)]]))
           ''Post'' ''create'' (Some create_args),
         SetCache (queryKey healthy_item)
           (JArr [JObj [(''id'', JNum 1)], JObj [(''id'', JNum 2)]])], Inr ())"
    by (simp add: example_client_def example_cache_def errored_item_def healthy_item_def
        key_of_def example_runtime_def append_created_def create_args_def set_cache_ok_def
        io_bind_def io_log_def io_call_def io_return_def)
  have body: "marshal example_runtime create_args = JsonText create_args"
    by (simp add: marshal_def example_runtime_def serialize_dates_def JSON_stringify_def
        create_args_def)
  have request: "mutationFn (useModelMutation example_runtime example_client None ''Post'' POST
             ''/api/model/post/create'' () (Some example_options)
             (Some (fetch_returning created_response)) (Some True) None (Some True)) create_args
    = ([create_request], Inr (Some (JObj [(''id'', JNum 2)])))"
    by (simp add: mutationFn_useModelMutation body fetcher_def create_request_def
        fetch_returning_def created_response_def res_ok_def unmarshal_def
        io_bind_def io_call_def io_return_def)
  have resolved: "getMutatedModels example_runtime ''Post'' ''create'' (Some create_args) ()
      = Inr [''Post'']"
    by (simp add: example_runtime_def root_only_def)
  show ?thesis
    using mutation_invalidates_twice [where rt = example_runtime and queryClient = example_client
      and contextLogging = None and model = "''Post''" and httpMethod = POST
      and url = "''/api/model/post/create''" and modelMeta = "()"
      and options = "Some example_options"
      and fetch = "Some (fetch_returning created_response)"
      and invalidateQueries' = "Some True" and checkReadBack = None
      and optimisticUpdate' = "Some True" and variables = create_args
      and operation = "''create''" and logging = False
      and mutatedModels = "[''Post'']"
      and predicate = "invalidationPredicate example_runtime [''Post''] ''Post'' ''create'' () False"
      and finalOptions = "useModelMutation example_runtime example_client None ''Post'' POST
             ''/api/model/post/create'' () (Some example_options)
             (Some (fetch_returning created_response)) (Some True) None (Some True)"
      and es_optimistic = "[ApplyMutation ''Post'' ''findMany''
             (Some (JArr [JObj [(''id'', JNum 1)]])) ''Post'' ''create'' (Some create_args),
           SetCache (queryKey healthy_item)
             (JArr [JObj [(''id'', JNum 1)], JObj [(''id'', JNum 2)]])]"
      and es_mutate = "[Custom ''onMutate'']" and ctx = "Some (JStr ''context'')"
      and es_request = "[create_request]" and data = "Some (JObj [(''id'', JNum 2)])"
      and es_success = "[Custom ''onSuccess'']" and ret_success = "Some (JStr ''succeeded'')"
      and es_settled = "[Custom ''onSettled'']" and ret_settled = "Some (JStr ''settled'')",
      OF seg _ _ _ _ _ _ scan _ request resolved]
      seg [symmetric] resolved
    by (simp add: example_options_def marking_hook_def example_client_def invalidate_ok_def)
qed

end
